theory Spec2Isabelle
  imports Complex_Main "HOL-Library.Sublist"
begin

section \<open>Hardware monitor (monitor.py): values, exceptions and backends\<close>

text \<open>
  Conventions of the embedding.

  \<^item> A Python \<open>float\<close> is modelled by the rational number it denotes; arithmetic, the
    comparisons and \<open>round(x, 1)\<close> are exact. The one effect of the binary format that
    changes control flow, the \<open>OverflowError\<close> of converting an \<open>int\<close> beyond the
    largest double, is written out in \<open>int_truediv\<close>. Where a value was itself computed
    in floating point (the two ACPI probes subtract 273.15), the binary value may sit
    just off a decimal tie and Python may round it the other way than \<open>round1\<close>;
    nothing below depends on where a tie goes. Infinities and NaN are not values here.
  \<^item> A Python exception is a value of \<open>exn\<close>; a call that may raise returns
    \<open>exn + 'a\<close> (\<open>Inl\<close> the exception). Only subclasses of \<open>Exception\<close> are modelled.
  \<^item> Every call into a library (psutil, wmi, pythonnet, subprocess) reads its answer
    from a \<open>backend\<close> snapshot. The world is a function from the number of probe calls
    made so far to the snapshot that the next call sees, so a backend can change
    between any two probe calls.
\<close>

datatype exn = ValueError | TypeError | OverflowError | OtherException

subsection \<open>Builtins\<close>

definition round_half_even :: "rat \<Rightarrow> int" where
  "round_half_even y =
     (let f = \<lfloor>y\<rfloor>; d = y - of_int f
      in if d < 1 / 2 then f else if 1 / 2 < d then f + 1
         else if even f then f else f + 1)"

definition round1 :: "rat \<Rightarrow> rat" where
  \<comment> \<open>\<open>round(x, 1)\<close>\<close>
  "round1 x = of_int (round_half_even (x * 10)) / 10"

definition int_truediv :: "int \<Rightarrow> rat \<Rightarrow> exn + rat" where
  \<comment> \<open>\<open>raw / 10.0\<close> for an int \<open>raw\<close>: the int is converted to a float first, which raises
      when it rounds beyond the largest double, \<open>2^1024 - 2^971\<close>.\<close>
  "int_truediv raw d =
     (if 2 ^ 1024 - 2 ^ 970 \<le> \<bar>raw\<bar> then Inl OverflowError else Inr (of_int raw / d))"

definition is_space :: "char \<Rightarrow> bool" where
  \<comment> \<open>\<open>str.isspace\<close> on the code points below 256\<close>
  "is_space c =
     (let n = (of_char c :: nat)
      in (9 \<le> n \<and> n \<le> 13) \<or> (28 \<le> n \<and> n \<le> 32) \<or> n = 133 \<or> n = 160)"

definition py_strip :: "string \<Rightarrow> string" where
  "py_strip s = rev (dropWhile is_space (rev (dropWhile is_space s)))"

definition py_lower :: "string \<Rightarrow> string" where
  \<comment> \<open>\<open>str.lower\<close>; only the ASCII letters matter to the ASCII keywords searched below\<close>
  "py_lower s =
     map (\<lambda>c. let n = (of_char c :: nat)
               in if 65 \<le> n \<and> n \<le> 90 then char_of (n + 32) else c) s"

definition str_or_empty :: "string option \<Rightarrow> string" where
  \<comment> \<open>\<open>x or ""\<close>\<close>
  "str_or_empty x = (case x of None \<Rightarrow> [] | Some s \<Rightarrow> s)"

definition is_digit :: "char \<Rightarrow> bool" where
  "is_digit c = (let n = (of_char c :: nat) in 48 \<le> n \<and> n \<le> 57)"

definition digits_value :: "string \<Rightarrow> int" where
  "digits_value ds = foldl (\<lambda>acc c. 10 * acc + (of_char c - 48)) 0 ds"

definition split_sign :: "string \<Rightarrow> bool \<times> string" where
  \<comment> \<open>an optional leading sign; True for minus\<close>
  "split_sign s =
     (case s of
        [] \<Rightarrow> (False, [])
      | c # rest \<Rightarrow>
          if c = CHR ''-'' then (True, rest)
          else if c = CHR ''+'' then (False, rest)
          else (False, s))"

definition int_max_str_digits :: nat where
  "int_max_str_digits = 4300"

definition py_int :: "string \<Rightarrow> exn + int" where
  \<comment> \<open>\<open>int(s)\<close> on a stripped text: an optional sign and ASCII digits, at most
      \<open>sys.int_info.default_max_str_digits\<close> of them. Texts that Python also accepts
      (underscores between digits) count as malformed here.\<close>
  "py_int s =
     (case split_sign s of
        (neg, ds) \<Rightarrow>
          if ds = [] \<or> \<not> list_all is_digit ds \<or> int_max_str_digits < length ds
          then Inl ValueError
          else Inr (if neg then - digits_value ds else digits_value ds))"

definition py_float :: "string \<Rightarrow> exn + rat" where
  \<comment> \<open>\<open>float(s)\<close> on a stripped text: an optional sign, ASCII digits, and an optional
      point with digits on at least one side. Texts that Python also accepts
      (exponents, underscores, inf, nan) count as malformed here.\<close>
  "py_float s =
     (case split_sign s of
        (neg, body) \<Rightarrow>
          let ip = takeWhile (\<lambda>c. c \<noteq> CHR ''.'') body;
              fp = drop (Suc (length ip)) body
          in if (ip = [] \<and> fp = []) \<or> \<not> list_all is_digit ip \<or> \<not> list_all is_digit fp
             then Inl ValueError
             else
               let v = of_int (digits_value ip) + of_int (digits_value fp) / 10 ^ length fp
               in Inr (if neg then - v else v))"

definition float_of_value :: "rat option \<Rightarrow> exn + rat" where
  \<comment> \<open>\<open>float(x)\<close> on an attribute that holds a number or None\<close>
  "float_of_value x = (case x of None \<Rightarrow> Inl TypeError | Some v \<Rightarrow> Inr v)"

definition int_of_value :: "int option \<Rightarrow> exn + int" where
  \<comment> \<open>\<open>int(x)\<close> on an attribute that holds an integer or None\<close>
  "int_of_value x = (case x of None \<Rightarrow> Inl TypeError | Some v \<Rightarrow> Inr v)"

definition except_Exception :: "exn + rat option \<Rightarrow> exn + rat option" where
  \<comment> \<open>\<open>try: ... except Exception: pass\<close> followed by \<open>return None\<close>\<close>
  "except_Exception r = (case r of Inl e \<Rightarrow> Inr None | Inr v \<Rightarrow> Inr v)"

definition except_ValueError_TypeError :: "exn + rat option \<Rightarrow> exn + rat option" where
  \<comment> \<open>\<open>try: ... except (ValueError, TypeError): pass\<close> followed by \<open>return None\<close>\<close>
  "except_ValueError_TypeError r =
     (case r of
        Inl e \<Rightarrow> if e = ValueError \<or> e = TypeError then Inr None else Inl e
      | Inr v \<Rightarrow> Inr v)"

subsection \<open>Backends\<close>

datatype hardware_type = Cpu | Storage | OtherHardware

record lhm_sensor =
  sensor_is_temperature :: bool
  sensor_value :: "rat option"
  sensor_name :: "string option"

record lhm_hardware =
  hardware_type :: hardware_type
  hardware_update :: "exn option"
  hardware_sensors :: "lhm_sensor list"

record wmi_sensor =
  wmi_SensorType :: string
  wmi_Name :: "string option"
  wmi_Value :: "rat option"
  wmi_Parent :: "string option"

datatype wmi_namespace =
  root_LibreHardwareMonitor | root_OpenHardwareMonitor | root_WMI | root_Storage

datatype ps_script = Script_ThermalZoneTemperature | Script_StorageReliabilityCounter

datatype completed_process = Raises exn | Completed int string

record backend =
  LHM_READY :: bool
  lhm_computer :: "(exn + lhm_hardware list) option"
  WMI_AVAILABLE :: bool
  wmi_connect :: "wmi_namespace \<Rightarrow> bool"
  wmi_Sensor :: "wmi_namespace \<Rightarrow> exn + wmi_sensor list"
  wmi_ThermalZoneTemperature :: "exn + int option list"
  wmi_PhysicalDisk :: "exn + rat option list"
  subprocess_run :: "ps_script \<Rightarrow> completed_process"
  psutil_has_sensors_temperatures :: bool
  psutil_sensors_temperatures :: "exn + (string \<times> rat list) list"
  psutil_cpu_percent :: "exn + rat"
  psutil_virtual_memory_percent :: "exn + rat"
  psutil_disk_usage_percent :: "exn + rat"
  time_strftime :: string

text \<open>
  \<open>LHM_READY\<close> and \<open>lhm_computer\<close> are the module globals set at import; \<open>lhm_computer\<close>
  is None, or what reading \<open>_lhm_computer.Hardware\<close> gives (the import inside the probe
  raising counts as this access raising). \<open>hardware_update\<close> is the exception raised by
  \<open>hw.Update()\<close>, if any. \<open>wmi_ThermalZoneTemperature\<close> lists \<open>tz.CurrentTemperature\<close> and
  \<open>wmi_PhysicalDisk\<close> lists \<open>getattr(disk, "Temperature", None)\<close>. An entry of
  \<open>psutil_sensors_temperatures\<close> is a sensor name with the \<open>current\<close> values of its
  readings, in the dictionary's order.
\<close>

definition run_powershell :: "backend \<Rightarrow> ps_script \<Rightarrow> string option" where
  "run_powershell b script =
     (case subprocess_run b script of
        Raises e \<Rightarrow> None
      | Completed returncode stdout \<Rightarrow>
          if returncode = 0 \<and> py_strip stdout \<noteq> [] then Some (py_strip stdout) else None)"

subsection \<open>The monitor object\<close>

datatype metric = CPU | SSD

record SensorReading =
  timestamp :: string
  cpu_percent :: rat
  cpu_temp :: "rat option"
  ram_percent :: rat
  disk_percent :: rat
  ssd_temp :: "rat option"

record HardwareMonitor =
  wmi_ohm :: "wmi_namespace option"
  wmi_root :: "wmi_namespace option"
  wmi_storage :: "wmi_namespace option"
  cpu_method :: "string option"
  ssd_method :: "string option"
  calls :: "(metric \<times> string) list"

text \<open>
  \<open>calls\<close> is not a field of the Python object: it logs every probe invocation, in
  order, as the metric and the chain name of the probe, so that the number and the order
  of probe calls can be stated. The snapshot a probe sees is the one at index
  \<open>length calls\<close>.
\<close>

type_synonym probe = "backend \<Rightarrow> exn + rat option"

section \<open>CPU temperature methods\<close>

fun cpu_lhm_sensors :: "lhm_sensor list \<Rightarrow> rat option \<times> rat option \<Rightarrow> rat option \<times> rat option" where
  \<comment> \<open>the loop over \<open>hw.Sensors\<close>; the state is \<open>(pkg_temp, first_core)\<close>\<close>
  "cpu_lhm_sensors [] (pkg_temp, first_core) = (pkg_temp, first_core)"
| "cpu_lhm_sensors (sensor # rest) (pkg_temp, first_core) =
     (if \<not> sensor_is_temperature sensor then cpu_lhm_sensors rest (pkg_temp, first_core)
      else case sensor_value sensor of
        None \<Rightarrow> cpu_lhm_sensors rest (pkg_temp, first_core)
      | Some val \<Rightarrow>
          if \<not> (0 < val \<and> val < 150) then cpu_lhm_sensors rest (pkg_temp, first_core)
          else if sublist ''package'' (py_lower (str_or_empty (sensor_name sensor)))
                  \<or> sublist ''total'' (py_lower (str_or_empty (sensor_name sensor)))
          then cpu_lhm_sensors rest (Some val, first_core)
          else if first_core = None
                  \<and> sublist ''core'' (py_lower (str_or_empty (sensor_name sensor)))
          then cpu_lhm_sensors rest (pkg_temp, Some val)
          else cpu_lhm_sensors rest (pkg_temp, first_core))"

fun cpu_lhm_hardware :: "lhm_hardware list \<Rightarrow> exn + rat option" where
  \<comment> \<open>the loop over \<open>_lhm_computer.Hardware\<close>\<close>
  "cpu_lhm_hardware [] = Inr None"
| "cpu_lhm_hardware (hw # rest) =
     (if hardware_type hw \<noteq> Cpu then cpu_lhm_hardware rest
      else case hardware_update hw of
        Some e \<Rightarrow> Inl e
      | None \<Rightarrow>
          (case cpu_lhm_sensors (hardware_sensors hw) (None, None) of
             (Some pkg_temp, first_core) \<Rightarrow> Inr (Some (round1 pkg_temp))
           | (None, Some first_core) \<Rightarrow> Inr (Some (round1 first_core))
           | (None, None) \<Rightarrow> cpu_lhm_hardware rest))"

definition cpu_temp_lhm :: "HardwareMonitor \<Rightarrow> probe" where
  "cpu_temp_lhm self b =
     (if \<not> LHM_READY b then Inr None
      else case lhm_computer b of
        None \<Rightarrow> Inr None
      | Some hardware \<Rightarrow>
          except_Exception
            (case hardware of Inl e \<Rightarrow> Inl e | Inr hws \<Rightarrow> cpu_lhm_hardware hws))"

fun cpu_ohm_sensors :: "wmi_sensor list \<Rightarrow> exn + rat option" where
  "cpu_ohm_sensors [] = Inr None"
| "cpu_ohm_sensors (sensor # rest) =
     (if wmi_SensorType sensor = ''Temperature''
         \<and> list_ex (\<lambda>k. sublist k (py_lower (str_or_empty (wmi_Name sensor))))
              [''cpu package'', ''cpu total'', ''core #0'', ''cpu'']
      then case float_of_value (wmi_Value sensor) of
        Inl e \<Rightarrow> Inl e
      | Inr val \<Rightarrow>
          if 0 < val \<and> val < 150 then Inr (Some (round1 val)) else cpu_ohm_sensors rest
      else cpu_ohm_sensors rest)"

definition cpu_temp_ohm :: "HardwareMonitor \<Rightarrow> probe" where
  "cpu_temp_ohm self b =
     (case wmi_ohm self of
        None \<Rightarrow> Inr None
      | Some ns \<Rightarrow>
          except_Exception
            (case wmi_Sensor b ns of Inl e \<Rightarrow> Inl e | Inr sensors \<Rightarrow> cpu_ohm_sensors sensors))"

fun cpu_acpi_zones :: "int option list \<Rightarrow> exn + rat option" where
  "cpu_acpi_zones [] = Inr None"
| "cpu_acpi_zones (tz # rest) =
     (case int_of_value tz of
        Inl e \<Rightarrow> Inl e
      | Inr raw \<Rightarrow>
          (case int_truediv raw 10 of
             Inl e \<Rightarrow> Inl e
           | Inr q \<Rightarrow>
               if 0 < q - 27315 / 100 \<and> q - 27315 / 100 < 150
               then Inr (Some (round1 (q - 27315 / 100)))
               else cpu_acpi_zones rest))"

definition cpu_temp_wmi_acpi :: "HardwareMonitor \<Rightarrow> probe" where
  "cpu_temp_wmi_acpi self b =
     (case wmi_root self of
        None \<Rightarrow> Inr None
      | Some ns \<Rightarrow>
          except_Exception
            (case wmi_ThermalZoneTemperature b of
               Inl e \<Rightarrow> Inl e
             | Inr zones \<Rightarrow> cpu_acpi_zones zones))"

definition cpu_temp_ps_acpi :: "HardwareMonitor \<Rightarrow> probe" where
  "cpu_temp_ps_acpi self b =
     (case run_powershell b Script_ThermalZoneTemperature of
        None \<Rightarrow> Inr None
      | Some output \<Rightarrow>
          if output = [] then Inr None
          else
            except_ValueError_TypeError
              (case py_int (py_strip output) of
                 Inl e \<Rightarrow> Inl e
               | Inr raw \<Rightarrow>
                   (case int_truediv raw 10 of
                      Inl e \<Rightarrow> Inl e
                    | Inr q \<Rightarrow>
                        let celsius = q - 27315 / 100
                        in if 0 < celsius \<and> celsius < 150
                           then Inr (Some (round1 celsius)) else Inr None)))"

fun psutil_first_named :: "string list \<Rightarrow> (string \<times> rat list) list \<Rightarrow> rat option" where
  \<comment> \<open>the loop over the four known sensor names\<close>
  "psutil_first_named [] temps = None"
| "psutil_first_named (name # rest) temps =
     (case map_of temps name of
        Some (current # others) \<Rightarrow> Some current
      | Some [] \<Rightarrow> psutil_first_named rest temps
      | None \<Rightarrow> psutil_first_named rest temps)"

fun psutil_first_entries :: "rat list list \<Rightarrow> rat option" where
  \<comment> \<open>the loop over \<open>temps.values()\<close>\<close>
  "psutil_first_entries [] = None"
| "psutil_first_entries ([] # rest) = psutil_first_entries rest"
| "psutil_first_entries ((current # others) # rest) = Some current"

definition cpu_temp_psutil :: "HardwareMonitor \<Rightarrow> probe" where
  "cpu_temp_psutil self b =
     (if \<not> psutil_has_sensors_temperatures b then Inr None
      else
        except_Exception
          (case psutil_sensors_temperatures b of
             Inl e \<Rightarrow> Inl e
           | Inr temps \<Rightarrow>
               if temps = [] then Inr None
               else
                 (case psutil_first_named
                         [''coretemp'', ''cpu_thermal'', ''k10temp'', ''zenpower''] temps of
                    Some current \<Rightarrow> Inr (Some current)
                  | None \<Rightarrow> Inr (psutil_first_entries (map snd temps)))))"

section \<open>SSD / NVMe temperature methods\<close>

fun ssd_lhm_sensors :: "lhm_sensor list \<Rightarrow> rat option" where
  "ssd_lhm_sensors [] = None"
| "ssd_lhm_sensors (sensor # rest) =
     (if \<not> sensor_is_temperature sensor then ssd_lhm_sensors rest
      else case sensor_value sensor of
        None \<Rightarrow> ssd_lhm_sensors rest
      | Some val \<Rightarrow>
          if 0 < val \<and> val < 150 then Some (round1 val) else ssd_lhm_sensors rest)"

fun ssd_lhm_hardware :: "lhm_hardware list \<Rightarrow> exn + rat option" where
  "ssd_lhm_hardware [] = Inr None"
| "ssd_lhm_hardware (hw # rest) =
     (if hardware_type hw \<noteq> Storage then ssd_lhm_hardware rest
      else case hardware_update hw of
        Some e \<Rightarrow> Inl e
      | None \<Rightarrow>
          (case ssd_lhm_sensors (hardware_sensors hw) of
             Some v \<Rightarrow> Inr (Some v)
           | None \<Rightarrow> ssd_lhm_hardware rest))"

definition ssd_temp_lhm :: "HardwareMonitor \<Rightarrow> probe" where
  "ssd_temp_lhm self b =
     (if \<not> LHM_READY b then Inr None
      else case lhm_computer b of
        None \<Rightarrow> Inr None
      | Some hardware \<Rightarrow>
          except_Exception
            (case hardware of Inl e \<Rightarrow> Inl e | Inr hws \<Rightarrow> ssd_lhm_hardware hws))"

definition ssd_ohm_value :: "wmi_sensor \<Rightarrow> exn + rat option" where
  \<comment> \<open>\<open>val = float(sensor.Value)\<close> and the range test; \<open>Inr None\<close> when out of range\<close>
  "ssd_ohm_value sensor =
     (case float_of_value (wmi_Value sensor) of
        Inl e \<Rightarrow> Inl e
      | Inr val \<Rightarrow> if 0 < val \<and> val < 150 then Inr (Some (round1 val)) else Inr None)"

fun ssd_ohm_sensors :: "wmi_sensor list \<Rightarrow> exn + rat option" where
  "ssd_ohm_sensors [] = Inr None"
| "ssd_ohm_sensors (sensor # rest) =
     (if wmi_SensorType sensor \<noteq> ''Temperature'' then ssd_ohm_sensors rest
      else
        case (if list_ex (\<lambda>k. sublist k (py_lower (str_or_empty (wmi_Name sensor))))
                   [''ssd'', ''nvme'', ''disk'', ''drive'']
              then ssd_ohm_value sensor else Inr None) of
          Inl e \<Rightarrow> Inl e
        | Inr (Some v) \<Rightarrow> Inr (Some v)
        | Inr None \<Rightarrow>
            (case (if list_ex (\<lambda>k. sublist k (py_lower (str_or_empty (wmi_Parent sensor))))
                        [''nvme'', ''ssd'', ''storage'']
                   then ssd_ohm_value sensor else Inr None) of
               Inl e \<Rightarrow> Inl e
             | Inr (Some v) \<Rightarrow> Inr (Some v)
             | Inr None \<Rightarrow> ssd_ohm_sensors rest))"

definition ssd_temp_ohm :: "HardwareMonitor \<Rightarrow> probe" where
  "ssd_temp_ohm self b =
     (case wmi_ohm self of
        None \<Rightarrow> Inr None
      | Some ns \<Rightarrow>
          except_Exception
            (case wmi_Sensor b ns of Inl e \<Rightarrow> Inl e | Inr sensors \<Rightarrow> ssd_ohm_sensors sensors))"

definition ssd_temp_ps_reliability :: "HardwareMonitor \<Rightarrow> probe" where
  "ssd_temp_ps_reliability self b =
     (case run_powershell b Script_StorageReliabilityCounter of
        None \<Rightarrow> Inr None
      | Some output \<Rightarrow>
          if output = [] then Inr None
          else
            except_ValueError_TypeError
              (case py_float (py_strip output) of
                 Inl e \<Rightarrow> Inl e
               | Inr val \<Rightarrow>
                   if 0 < val \<and> val < 150 then Inr (Some (round1 val)) else Inr None))"

fun ssd_storage_disks :: "rat option list \<Rightarrow> rat option" where
  "ssd_storage_disks [] = None"
| "ssd_storage_disks (raw # rest) =
     (case raw of
        None \<Rightarrow> ssd_storage_disks rest
      | Some val \<Rightarrow>
          if 0 < val \<and> val < 150 then Some (round1 val) else ssd_storage_disks rest)"

definition ssd_temp_wmi_storage :: "HardwareMonitor \<Rightarrow> probe" where
  "ssd_temp_wmi_storage self b =
     (case wmi_storage self of
        None \<Rightarrow> Inr None
      | Some ns \<Rightarrow>
          except_Exception
            (case wmi_PhysicalDisk b of
               Inl e \<Rightarrow> Inl e
             | Inr disks \<Rightarrow> Inr (ssd_storage_disks disks)))"

section \<open>Construction and discovery\<close>

definition init_wmi_providers :: "backend \<Rightarrow> HardwareMonitor \<Rightarrow> HardwareMonitor" where
  \<comment> \<open>\<open>wmi_connect b ns\<close>: \<open>wmi_module.WMI(namespace=ns)\<close> returns a client; the first loop
      also needs \<open>client.Sensor()\<close> not to raise\<close>
  "init_wmi_providers b self =
     (if \<not> WMI_AVAILABLE b then self
      else
        self\<lparr>wmi_ohm :=
               (case find (\<lambda>ns. wmi_connect b ns \<and> \<not> isl (wmi_Sensor b ns))
                       [root_LibreHardwareMonitor, root_OpenHardwareMonitor] of
                  None \<Rightarrow> wmi_ohm self
                | Some ns \<Rightarrow> Some ns),
             wmi_root := (if wmi_connect b root_WMI then Some root_WMI else wmi_root self),
             wmi_storage :=
               (if wmi_connect b root_Storage then Some root_Storage else wmi_storage self)\<rparr>)"

definition cpu_methods :: "HardwareMonitor \<Rightarrow> (string \<times> probe) list" where
  "cpu_methods self =
     [(''lhm'', cpu_temp_lhm self),
      (''ohm_wmi'', cpu_temp_ohm self),
      (''wmi_acpi'', cpu_temp_wmi_acpi self),
      (''ps_acpi'', cpu_temp_ps_acpi self),
      (''psutil'', cpu_temp_psutil self)]"

definition ssd_methods :: "HardwareMonitor \<Rightarrow> (string \<times> probe) list" where
  "ssd_methods self =
     [(''lhm'', ssd_temp_lhm self),
      (''ohm_wmi'', ssd_temp_ohm self),
      (''ps_reliability'', ssd_temp_ps_reliability self),
      (''wmi_storage'', ssd_temp_wmi_storage self)]"

definition set_method :: "metric \<Rightarrow> string \<Rightarrow> HardwareMonitor \<Rightarrow> HardwareMonitor" where
  \<comment> \<open>\<open>self._cpu_method = name\<close>, or \<open>self._ssd_method = name\<close>\<close>
  "set_method k name self =
     (case k of
        CPU \<Rightarrow> self\<lparr>cpu_method := Some name\<rparr>
      | SSD \<Rightarrow> self\<lparr>ssd_method := Some name\<rparr>)"

definition call_probe ::
  "metric \<Rightarrow> string \<Rightarrow> probe \<Rightarrow> (nat \<Rightarrow> backend) \<Rightarrow> HardwareMonitor
     \<Rightarrow> (exn + rat option) \<times> HardwareMonitor" where
  \<comment> \<open>\<open>val = func()\<close>: the probe sees the current snapshot, and the call is logged\<close>
  "call_probe k name func world self =
     (func (world (length (calls self))), self\<lparr>calls := calls self @ [(k, name)]\<rparr>)"

fun first_working ::
  "metric \<Rightarrow> (string \<times> probe) list \<Rightarrow> (nat \<Rightarrow> backend) \<Rightarrow> HardwareMonitor
     \<Rightarrow> (exn + rat option) \<times> HardwareMonitor" where
  \<comment> \<open>\<open>for name, func in methods: val = func(); if val is not None: <set the method>;
      break\<close> (or \<open>return val\<close>); the value found is returned, None when the chain is
      exhausted\<close>
  "first_working k [] world self = (Inr None, self)"
| "first_working k ((name, func) # rest) world self =
     (case call_probe k name func world self of
        (Inl e, self') \<Rightarrow> (Inl e, self')
      | (Inr (Some val), self') \<Rightarrow> (Inr (Some val), set_method k name self')
      | (Inr None, self') \<Rightarrow> first_working k rest world self')"

definition detect_best_methods ::
  "(nat \<Rightarrow> backend) \<Rightarrow> HardwareMonitor \<Rightarrow> (exn + unit) \<times> HardwareMonitor" where
  "detect_best_methods world self =
     (case first_working CPU (cpu_methods self) world self of
        (Inl e, self1) \<Rightarrow> (Inl e, self1)
      | (Inr found, self1) \<Rightarrow>
          (case first_working SSD (ssd_methods self1) world self1 of
             (Inl e, self2) \<Rightarrow> (Inl e, self2)
           | (Inr found', self2) \<Rightarrow> (Inr (), self2)))"

definition new_monitor :: HardwareMonitor where
  \<comment> \<open>the fields as the first lines of \<open>__init__\<close> set them\<close>
  "new_monitor =
     \<lparr>wmi_ohm = None, wmi_root = None, wmi_storage = None,
      cpu_method = None, ssd_method = None, calls = []\<rparr>"

definition HardwareMonitor_init :: "(nat \<Rightarrow> backend) \<Rightarrow> exn + HardwareMonitor" where
  \<comment> \<open>\<open>HardwareMonitor()\<close>: the object, or the exception that leaves \<open>__init__\<close>\<close>
  "HardwareMonitor_init world =
     (case detect_best_methods world (init_wmi_providers (world 0) new_monitor) of
        (Inl e, self) \<Rightarrow> Inl e
      | (Inr u, self) \<Rightarrow> Inr self)"

section \<open>Public API\<close>

definition cpu_dispatch :: "HardwareMonitor \<Rightarrow> (string \<times> probe) list" where
  "cpu_dispatch self =
     [(''lhm'', cpu_temp_lhm self),
      (''ohm_wmi'', cpu_temp_ohm self),
      (''wmi_acpi'', cpu_temp_wmi_acpi self),
      (''ps_acpi'', cpu_temp_ps_acpi self),
      (''psutil'', cpu_temp_psutil self)]"

definition ssd_dispatch :: "HardwareMonitor \<Rightarrow> (string \<times> probe) list" where
  "ssd_dispatch self =
     [(''lhm'', ssd_temp_lhm self),
      (''ohm_wmi'', ssd_temp_ohm self),
      (''ps_reliability'', ssd_temp_ps_reliability self),
      (''wmi_storage'', ssd_temp_wmi_storage self)]"

definition sticky_call ::
  "metric \<Rightarrow> string option \<Rightarrow> (string \<times> probe) list \<Rightarrow> (nat \<Rightarrow> backend) \<Rightarrow> HardwareMonitor
     \<Rightarrow> (exn + rat option) \<times> HardwareMonitor" where
  \<comment> \<open>\<open>if method and method in dispatch: val = dispatch[method]()\<close>; \<open>Inr None\<close> when the
      branch is not taken\<close>
  "sticky_call k method dispatch world self =
     (case method of
        None \<Rightarrow> (Inr None, self)
      | Some name \<Rightarrow>
          if name = [] then (Inr None, self)
          else
            (case map_of dispatch name of
               None \<Rightarrow> (Inr None, self)
             | Some func \<Rightarrow> call_probe k name func world self))"

definition get_cpu_temperature ::
  "(nat \<Rightarrow> backend) \<Rightarrow> HardwareMonitor \<Rightarrow> (exn + rat option) \<times> HardwareMonitor" where
  "get_cpu_temperature world self =
     (case sticky_call CPU (cpu_method self) (cpu_dispatch self) world self of
        (Inl e, self1) \<Rightarrow> (Inl e, self1)
      | (Inr (Some val), self1) \<Rightarrow> (Inr (Some val), self1)
      | (Inr None, self1) \<Rightarrow> first_working CPU (cpu_dispatch self1) world self1)"

definition get_ssd_temperature ::
  "(nat \<Rightarrow> backend) \<Rightarrow> HardwareMonitor \<Rightarrow> (exn + rat option) \<times> HardwareMonitor" where
  "get_ssd_temperature world self =
     (case sticky_call SSD (ssd_method self) (ssd_dispatch self) world self of
        (Inl e, self1) \<Rightarrow> (Inl e, self1)
      | (Inr (Some val), self1) \<Rightarrow> (Inr (Some val), self1)
      | (Inr None, self1) \<Rightarrow> first_working SSD (ssd_dispatch self1) world self1)"

definition read_sensors ::
  "(nat \<Rightarrow> backend) \<Rightarrow> HardwareMonitor \<Rightarrow> (exn + SensorReading) \<times> HardwareMonitor" where
  \<comment> \<open>the utilisation queries read the snapshot current at entry\<close>
  "read_sensors world self =
     (case psutil_cpu_percent (world (length (calls self))) of
        Inl e \<Rightarrow> (Inl e, self)
      | Inr cpu \<Rightarrow>
     (case psutil_virtual_memory_percent (world (length (calls self))) of
        Inl e \<Rightarrow> (Inl e, self)
      | Inr ram \<Rightarrow>
     (case psutil_disk_usage_percent (world (length (calls self))) of
        Inl e \<Rightarrow> (Inl e, self)
      | Inr disk \<Rightarrow>
     (case get_cpu_temperature world self of
        (Inl e, self1) \<Rightarrow> (Inl e, self1)
      | (Inr ctemp, self1) \<Rightarrow>
     (case get_ssd_temperature world self1 of
        (Inl e, self2) \<Rightarrow> (Inl e, self2)
      | (Inr stemp, self2) \<Rightarrow>
          (Inr \<lparr>timestamp = time_strftime (world (length (calls self))),
                cpu_percent = round1 cpu,
                cpu_temp = (case ctemp of None \<Rightarrow> None | Some t \<Rightarrow> Some (round1 t)),
                ram_percent = round1 ram,
                disk_percent = round1 disk,
                ssd_temp = (case stemp of None \<Rightarrow> None | Some t \<Rightarrow> Some (round1 t))\<rparr>,
           self2))))))"

definition method_or_none :: "string option \<Rightarrow> string" where
  \<comment> \<open>\<open>self._cpu_method or "none"\<close>, the \<open>temp_cpu_method\<close> and \<open>temp_ssd_method\<close> entries of
      \<open>get_system_info\<close>\<close>
  "method_or_none method =
     (case method of None \<Rightarrow> ''none'' | Some s \<Rightarrow> if s = [] then ''none'' else s)"

definition labels_get :: "(string \<times> string) list \<Rightarrow> string option \<Rightarrow> string" where
  \<comment> \<open>\<open>labels.get(method or "", "Tidak tersedia")\<close>\<close>
  "labels_get labels method =
     (case map_of labels (str_or_empty method) of
        None \<Rightarrow> ''Tidak tersedia''
      | Some label \<Rightarrow> label)"

definition cpu_method_label :: "HardwareMonitor \<Rightarrow> string" where
  "cpu_method_label self =
     labels_get
       [(''lhm'', ''LibreHardwareMonitor''),
        (''ohm_wmi'', ''OHM/LHM WMI''),
        (''wmi_acpi'', ''WMI ThermalZone''),
        (''ps_acpi'', ''PowerShell ACPI''),
        (''psutil'', ''psutil'')]
       (cpu_method self)"

definition ssd_method_label :: "HardwareMonitor \<Rightarrow> string" where
  "ssd_method_label self =
     labels_get
       [(''lhm'', ''LibreHardwareMonitor''),
        (''ohm_wmi'', ''OHM/LHM WMI''),
        (''ps_reliability'', ''StorageReliability''),
        (''wmi_storage'', ''WMI Storage'')]
       (ssd_method self)"

section \<open>The method slots\<close>

definition cpu_names :: "string list" where
  "cpu_names = [''lhm'', ''ohm_wmi'', ''wmi_acpi'', ''ps_acpi'', ''psutil'']"

definition ssd_names :: "string list" where
  "ssd_names = [''lhm'', ''ohm_wmi'', ''ps_reliability'', ''wmi_storage'']"

definition known_methods :: "HardwareMonitor \<Rightarrow> bool" where
  \<comment> \<open>each slot is None or holds a name of the chain of its own metric\<close>
  "known_methods self =
     ((case cpu_method self of None \<Rightarrow> True | Some name \<Rightarrow> name \<in> set cpu_names)
      \<and> (case ssd_method self of None \<Rightarrow> True | Some name \<Rightarrow> name \<in> set ssd_names))"

definition slots_kept :: "HardwareMonitor \<Rightarrow> HardwareMonitor \<Rightarrow> bool" where
  \<comment> \<open>from the first object to the second, each slot is unchanged or has received a name
      of the chain of its own metric\<close>
  "slots_kept self self' =
     ((cpu_method self' = cpu_method self \<or> cpu_method self' \<in> Some ` set cpu_names)
      \<and> (ssd_method self' = ssd_method self \<or> ssd_method self' \<in> Some ` set ssd_names))"

section \<open>Example machines\<close>

definition bare_machine :: backend where
  \<comment> \<open>no sensor backend answers; the utilisation queries do\<close>
  "bare_machine =
     \<lparr>LHM_READY = False, lhm_computer = None, WMI_AVAILABLE = False,
      wmi_connect = (\<lambda>ns. False), wmi_Sensor = (\<lambda>ns. Inl OtherException),
      wmi_ThermalZoneTemperature = Inl OtherException,
      wmi_PhysicalDisk = Inl OtherException,
      subprocess_run = (\<lambda>script. Raises OtherException),
      psutil_has_sensors_temperatures = False,
      psutil_sensors_temperatures = Inl OtherException,
      psutil_cpu_percent = Inr (1234 / 100),
      psutil_virtual_memory_percent = Inr (4567 / 100),
      psutil_disk_usage_percent = Inr 80,
      time_strftime = ''2026-01-01 00:00:00''\<rparr>"

definition psutil_machine :: "rat \<Rightarrow> backend" where
  \<comment> \<open>only psutil answers, with one \<open>coretemp\<close> reading\<close>
  "psutil_machine current =
     bare_machine\<lparr>psutil_has_sensors_temperatures := True,
                  psutil_sensors_temperatures := Inr [(''coretemp'', [current])]\<rparr>"

definition powershell_machine :: "string \<Rightarrow> backend" where
  \<comment> \<open>only PowerShell answers: both scripts exit with code 0 and print the text\<close>
  "powershell_machine stdout = bare_machine\<lparr>subprocess_run := (\<lambda>script. Completed 0 stdout)\<rparr>"

definition storage_machine :: "rat \<Rightarrow> backend" where
  \<comment> \<open>only the WMI storage namespace answers, with one disk\<close>
  "storage_machine temperature =
     bare_machine\<lparr>WMI_AVAILABLE := True,
                  wmi_connect := (\<lambda>ns. ns = root_Storage),
                  wmi_PhysicalDisk := Inr [Some temperature]\<rparr>"

definition sensor_machine :: "rat \<Rightarrow> rat \<Rightarrow> backend" where
  \<comment> \<open>psutil answers with one \<open>coretemp\<close> reading and the WMI storage namespace with
      one disk\<close>
  "sensor_machine current temperature =
     bare_machine\<lparr>WMI_AVAILABLE := True,
                  wmi_connect := (\<lambda>ns. ns = root_Storage),
                  wmi_PhysicalDisk := Inr [Some temperature],
                  psutil_has_sensors_temperatures := True,
                  psutil_sensors_temperatures := Inr [(''coretemp'', [current])]\<rparr>"

definition fading_world :: "nat \<Rightarrow> backend" where
  \<comment> \<open>the sensors answer during the nine probe calls of construction and are gone
      afterwards\<close>
  "fading_world n = (if n < 9 then sensor_machine (423 / 10) 38 else bare_machine)"

definition steady_monitor :: HardwareMonitor where
  \<comment> \<open>the object that construction yields on \<open>sensor_machine\<close>: the last probe of each
      chain is selected\<close>
  "steady_monitor =
     \<lparr>wmi_ohm = None, wmi_root = None, wmi_storage = Some root_Storage,
      cpu_method = Some ''psutil'', ssd_method = Some ''wmi_storage'',
      calls = [(CPU, ''lhm''), (CPU, ''ohm_wmi''), (CPU, ''wmi_acpi''), (CPU, ''ps_acpi''),
               (CPU, ''psutil''), (SSD, ''lhm''), (SSD, ''ohm_wmi''),
               (SSD, ''ps_reliability''), (SSD, ''wmi_storage'')]\<rparr>"

definition powershell_monitor :: HardwareMonitor where
  \<comment> \<open>\<open>steady_monitor\<close>, had the two PowerShell probes been the selected ones\<close>
  "powershell_monitor =
     steady_monitor\<lparr>cpu_method := Some ''ps_acpi'', ssd_method := Some ''ps_reliability''\<rparr>"

definition office_machine :: backend where
  \<comment> \<open>the OpenHardwareMonitor WMI provider reports a CPU package sensor, PowerShell
      prints 38 for either script, the storage namespace has one disk and psutil one
      \<open>coretemp\<close> reading\<close>
  "office_machine =
     bare_machine\<lparr>WMI_AVAILABLE := True,
                  wmi_connect := (\<lambda>ns. ns = root_OpenHardwareMonitor \<or> ns = root_Storage),
                  wmi_Sensor :=
                    (\<lambda>ns. Inr [\<lparr>wmi_SensorType = ''Temperature'',
                                wmi_Name = Some ''CPU Package'',
                                wmi_Value = Some (111 / 2),
                                wmi_Parent = Some ''/intelcpu/0''\<rparr>]),
                  wmi_PhysicalDisk := Inr [Some 40],
                  subprocess_run := (\<lambda>script. Completed 0 ''38''),
                  psutil_has_sensors_temperatures := True,
                  psutil_sensors_temperatures := Inr [(''coretemp'', [60])]\<rparr>"

definition office_monitor :: HardwareMonitor where
  \<comment> \<open>the object on \<open>office_machine\<close> when \<open>_init_wmi_providers\<close> has run\<close>
  "office_monitor =
     new_monitor\<lparr>wmi_ohm := Some root_OpenHardwareMonitor, wmi_storage := Some root_Storage\<rparr>"

definition huge_text :: string where
  \<comment> \<open>the digit 1 followed by 400 zeros\<close>
  "huge_text = CHR ''1'' # replicate 400 CHR ''0''"

definition acpi_machine :: "int \<Rightarrow> backend" where
  \<comment> \<open>only the \<open>root\WMI\<close> namespace answers, with one thermal zone\<close>
  "acpi_machine raw =
     bare_machine\<lparr>WMI_AVAILABLE := True,
                  wmi_connect := (\<lambda>ns. ns = root_WMI),
                  wmi_ThermalZoneTemperature := Inr [Some raw]\<rparr>"

definition bare_monitor :: HardwareMonitor where
  \<comment> \<open>the object that construction yields on \<open>bare_machine\<close>: nothing is selected\<close>
  "bare_monitor =
     new_monitor\<lparr>calls := [(CPU, ''lhm''), (CPU, ''ohm_wmi''), (CPU, ''wmi_acpi''),
                           (CPU, ''ps_acpi''), (CPU, ''psutil''), (SSD, ''lhm''),
                           (SSD, ''ohm_wmi''), (SSD, ''ps_reliability''),
                           (SSD, ''wmi_storage'')]\<rparr>"

section \<open>Properties of the builtins and of the probes\<close>

lemma round_half_even_of_int: "round_half_even (of_int k) = k"
  by (simp add: round_half_even_def)

lemma round1_idem: "round1 (round1 x) = round1 x"
  by (simp add: round1_def round_half_even_of_int)

lemma except_Exception_total: "\<exists>v. except_Exception r = Inr v"
  by (cases r) (simp_all add: except_Exception_def)

lemma py_float_errors: "py_float s = Inl e \<Longrightarrow> e = ValueError"
  by (auto simp: py_float_def Let_def split: prod.splits if_splits)

text \<open>No storage probe lets an exception out.\<close>

lemma ssd_temp_lhm_total: "\<exists>v. ssd_temp_lhm self b = Inr v"
  using except_Exception_total by (auto simp: ssd_temp_lhm_def split: option.splits)

lemma ssd_temp_ohm_total: "\<exists>v. ssd_temp_ohm self b = Inr v"
  using except_Exception_total by (auto simp: ssd_temp_ohm_def split: option.splits)

lemma ssd_temp_wmi_storage_total: "\<exists>v. ssd_temp_wmi_storage self b = Inr v"
  using except_Exception_total by (auto simp: ssd_temp_wmi_storage_def split: option.splits)

lemma ssd_temp_ps_reliability_total: "\<exists>v. ssd_temp_ps_reliability self b = Inr v"
  by (auto simp: ssd_temp_ps_reliability_def except_ValueError_TypeError_def
      split: option.splits sum.splits dest: py_float_errors)

lemma ssd_methods_total: "p \<in> set (ssd_methods self) \<Longrightarrow> \<exists>v. snd p b = Inr v"
  using ssd_temp_lhm_total [of self b] ssd_temp_ohm_total [of self b]
    ssd_temp_ps_reliability_total [of self b] ssd_temp_wmi_storage_total [of self b]
  by (auto simp: ssd_methods_def)

text \<open>
  The probes read only the three WMI handles of the object, so the chain built from the
  object is the same before and after a method slot or the call log changes; and the
  dispatch table of the accessors is the chain of the discovery pass.
\<close>

lemma cpu_methods_handles:
  "wmi_ohm a = wmi_ohm b \<Longrightarrow> wmi_root a = wmi_root b \<Longrightarrow> cpu_methods a = cpu_methods b"
  by (simp add: cpu_methods_def fun_eq_iff cpu_temp_lhm_def cpu_temp_ohm_def
      cpu_temp_wmi_acpi_def cpu_temp_ps_acpi_def cpu_temp_psutil_def)

lemma ssd_methods_handles:
  "wmi_ohm a = wmi_ohm b \<Longrightarrow> wmi_storage a = wmi_storage b \<Longrightarrow> ssd_methods a = ssd_methods b"
  by (simp add: ssd_methods_def fun_eq_iff ssd_temp_lhm_def ssd_temp_ohm_def
      ssd_temp_ps_reliability_def ssd_temp_wmi_storage_def)

lemma cpu_dispatch_methods: "cpu_dispatch self = cpu_methods self"
  by (simp add: cpu_dispatch_def cpu_methods_def)

lemma ssd_dispatch_methods: "ssd_dispatch self = ssd_methods self"
  by (simp add: ssd_dispatch_def ssd_methods_def)

section \<open>Properties of the chain walk\<close>

lemma set_method_fields [simp]:
  "wmi_ohm (set_method k name self) = wmi_ohm self"
  "wmi_root (set_method k name self) = wmi_root self"
  "wmi_storage (set_method k name self) = wmi_storage self"
  "calls (set_method k name self) = calls self"
  "cpu_method (set_method k name self) = (if k = CPU then Some name else cpu_method self)"
  "ssd_method (set_method k name self) = (if k = SSD then Some name else ssd_method self)"
  by (cases k; simp add: set_method_def)+

lemma first_working_step:
  "first_working k ((name, func) # rest) world self =
     (case func (world (length (calls self))) of
        Inl e \<Rightarrow> (Inl e, self\<lparr>calls := calls self @ [(k, name)]\<rparr>)
      | Inr (Some val) \<Rightarrow>
          (Inr (Some val), set_method k name (self\<lparr>calls := calls self @ [(k, name)]\<rparr>))
      | Inr None \<Rightarrow> first_working k rest world (self\<lparr>calls := calls self @ [(k, name)]\<rparr>))"
  by (simp add: call_probe_def split: sum.splits option.splits)

declare first_working.simps(2) [simp del]

text \<open>The walk when every probe of the chain returns None.\<close>

lemma first_working_exhausted:
  "(\<And>j. j < length ms \<Longrightarrow> snd (ms ! j) (world (length (calls self) + j)) = Inr None)
   \<Longrightarrow> first_working k ms world self
       = (Inr None, self\<lparr>calls := calls self @ map (\<lambda>p. (k, fst p)) ms\<rparr>)"
proof (induction ms arbitrary: self)
  case Nil
  then show ?case by simp
next
  case (Cons p ms)
  obtain name func where p: "p = (name, func)" by (cases p)
  have h0: "func (world (length (calls self))) = Inr None"
    using Cons.prems [of 0] by (simp add: p)
  have hs: "\<And>j. j < length ms \<Longrightarrow>
      snd (ms ! j) (world (length (calls (self\<lparr>calls := calls self @ [(k, name)]\<rparr>)) + j)) = Inr None"
    using Cons.prems [of "Suc _"] by simp
  show ?case
    using Cons.IH [OF hs] h0 by (simp add: p first_working_step)
qed

text \<open>The walk when the probe at position \<open>i\<close> is the first to return a value.\<close>

lemma first_working_found:
  "i < length ms
   \<Longrightarrow> (\<And>j. j < i \<Longrightarrow> snd (ms ! j) (world (length (calls self) + j)) = Inr None)
   \<Longrightarrow> snd (ms ! i) (world (length (calls self) + i)) = Inr (Some v)
   \<Longrightarrow> first_working k ms world self
       = (Inr (Some v),
          set_method k (fst (ms ! i))
            (self\<lparr>calls := calls self @ map (\<lambda>p. (k, fst p)) (take (Suc i) ms)\<rparr>))"
proof (induction ms arbitrary: self i)
  case Nil
  then show ?case by simp
next
  case (Cons p ms)
  obtain name func where p: "p = (name, func)" by (cases p)
  show ?case
  proof (cases i)
    case 0
    then show ?thesis using Cons.prems(3) by (simp add: p first_working_step)
  next
    case (Suc i')
    have h0: "func (world (length (calls self))) = Inr None"
      using Cons.prems(2) [of 0] Suc by (simp add: p)
    let ?s = "self\<lparr>calls := calls self @ [(k, name)]\<rparr>"
    have a: "i' < length ms" using Cons.prems(1) Suc by simp
    have b: "\<And>j. j < i' \<Longrightarrow> snd (ms ! j) (world (length (calls ?s) + j)) = Inr None"
      using Cons.prems(2) [of "Suc _"] Suc by simp
    have c: "snd (ms ! i') (world (length (calls ?s) + i')) = Inr (Some v)"
      using Cons.prems(3) Suc by simp
    show ?thesis
      using Cons.IH [OF a b c] h0 Suc by (simp add: p first_working_step)
  qed
qed

lemma first_working_handles:
  "wmi_ohm (snd (first_working k ms world self)) = wmi_ohm self
   \<and> wmi_root (snd (first_working k ms world self)) = wmi_root self
   \<and> wmi_storage (snd (first_working k ms world self)) = wmi_storage self"
proof (induction ms arbitrary: self)
  case Nil
  then show ?case by simp
next
  case (Cons p ms)
  obtain name func where p: "p = (name, func)" by (cases p)
  show ?case
    using Cons.IH [of "self\<lparr>calls := calls self @ [(k, name)]\<rparr>"]
    by (simp add: p first_working_step split: sum.splits option.splits)
qed

text \<open>
  A walk leaves each method slot as it was, or stores in the slot of its own metric the
  name of a probe of the chain.
\<close>

lemma first_working_methods:
  "(cpu_method (snd (first_working k ms world self)) = cpu_method self
      \<or> (k = CPU \<and> cpu_method (snd (first_working k ms world self)) \<in> Some ` fst ` set ms))
   \<and> (ssd_method (snd (first_working k ms world self)) = ssd_method self
      \<or> (k = SSD \<and> ssd_method (snd (first_working k ms world self)) \<in> Some ` fst ` set ms))"
proof (induction ms arbitrary: self)
  case Nil
  then show ?case by simp
next
  case (Cons p ms)
  obtain name func where p: "p = (name, func)" by (cases p)
  let ?s = "self\<lparr>calls := calls self @ [(k, name)]\<rparr>"
  show ?case
  proof (cases "func (world (length (calls self)))")
    case (Inl e)
    then show ?thesis by (simp add: p first_working_step)
  next
    case (Inr r)
    show ?thesis
    proof (cases r)
      case None
      with Inr have "first_working k (p # ms) world self = first_working k ms world ?s"
        by (simp add: p first_working_step)
      then show ?thesis using Cons.IH [of ?s] by auto
    next
      case (Some v)
      with Inr show ?thesis by (cases k) (simp_all add: p first_working_step)
    qed
  qed
qed

lemma first_working_total:
  "(\<And>p b. p \<in> set ms \<Longrightarrow> \<exists>v. snd p b = Inr v)
   \<Longrightarrow> \<exists>v. fst (first_working k ms world self) = Inr v"
proof (induction ms arbitrary: self)
  case Nil
  then show ?case by simp
next
  case (Cons p ms)
  obtain name func where p: "p = (name, func)" by (cases p)
  obtain r where r: "func (world (length (calls self))) = Inr r"
    using Cons.prems [of p] by (auto simp: p)
  have ih: "\<exists>v. fst (first_working k ms world (self\<lparr>calls := calls self @ [(k, name)]\<rparr>)) = Inr v"
    using Cons.IH Cons.prems by simp
  show ?case using r ih by (cases r) (simp_all add: p first_working_step)
qed

section \<open>Properties of the discovery pass\<close>

text \<open>
  A walk in which the probes before position \<open>i\<close> return None and the probe at \<open>i\<close>, if
  there is one, returns a value: the probes up to \<open>i\<close> are called, in order, and no
  other.
\<close>

lemma first_working_walk:
  assumes le: "i \<le> length ms"
    and none: "\<And>j. j < i \<Longrightarrow> snd (ms ! j) (world (length (calls self) + j)) = Inr None"
    and some: "i < length ms \<Longrightarrow>
          \<exists>v. snd (ms ! i) (world (length (calls self) + i)) = Inr (Some v)"
  shows "\<exists>r. first_working k ms world self
           = (Inr r,
              (if i < length ms then set_method k (fst (ms ! i)) else (\<lambda>s. s))
                (self\<lparr>calls := calls self @ map (\<lambda>p. (k, fst p)) (take (Suc i) ms)\<rparr>))"
proof (cases "i < length ms")
  case True
  then obtain v where v: "snd (ms ! i) (world (length (calls self) + i)) = Inr (Some v)"
    using some by blast
  show ?thesis using first_working_found [OF True none v, of k] True by simp
next
  case False
  then have i: "i = length ms" using le by simp
  have "\<And>j. j < length ms \<Longrightarrow> snd (ms ! j) (world (length (calls self) + j)) = Inr None"
    using none i by simp
  from first_working_exhausted [OF this, of k] show ?thesis using i by simp
qed

lemma ssd_methods_after_walk:
  "ssd_methods (snd (first_working k ms world self)) = ssd_methods self"
  by (rule ssd_methods_handles) (simp_all add: first_working_handles)

lemma detect_best_methods_walk:
  assumes "i \<le> length (cpu_methods self)"
    and "\<forall>j<i. snd (cpu_methods self ! j) (world (length (calls self) + j)) = Inr None"
    and "i < length (cpu_methods self) \<longrightarrow>
          (\<exists>v. snd (cpu_methods self ! i) (world (length (calls self) + i)) = Inr (Some v))"
    and "i' \<le> length (ssd_methods self)"
    and "\<forall>j<i'. snd (ssd_methods self ! j)
            (world (length (calls self) + length (take (Suc i) (cpu_methods self)) + j))
          = Inr None"
    and "i' < length (ssd_methods self) \<longrightarrow>
          (\<exists>v. snd (ssd_methods self ! i')
             (world (length (calls self) + length (take (Suc i) (cpu_methods self)) + i'))
           = Inr (Some v))"
  shows "detect_best_methods world self
           = (Inr (),
              self\<lparr>cpu_method :=
                     (if i < length (cpu_methods self)
                      then Some (fst (cpu_methods self ! i)) else cpu_method self),
                   ssd_method :=
                     (if i' < length (ssd_methods self)
                      then Some (fst (ssd_methods self ! i')) else ssd_method self),
                   calls := calls self
                     @ map (\<lambda>p. (CPU, fst p)) (take (Suc i) (cpu_methods self))
                     @ map (\<lambda>p. (SSD, fst p)) (take (Suc i') (ssd_methods self))\<rparr>)"
proof -
  let ?c = "cpu_methods self" and ?d = "ssd_methods self"
  let ?s1 = "(if i < length ?c then set_method CPU (fst (?c ! i)) else (\<lambda>s. s))
               (self\<lparr>calls := calls self @ map (\<lambda>p. (CPU, fst p)) (take (Suc i) ?c)\<rparr>)"
  obtain r where r: "first_working CPU ?c world self = (Inr r, ?s1)"
    using first_working_walk [of i ?c world self CPU] assms(1-3) by blast
  have ds: "ssd_methods ?s1 = ?d"
    by (rule ssd_methods_handles) simp_all
  have len: "length (calls ?s1) = length (calls self) + length (take (Suc i) ?c)"
    by simp
  have n2: "\<And>j. j < i' \<Longrightarrow> snd (?d ! j) (world (length (calls ?s1) + j)) = Inr None"
    unfolding len using assms(5) by blast
  have s2: "i' < length ?d \<Longrightarrow>
      \<exists>v. snd (?d ! i') (world (length (calls ?s1) + i')) = Inr (Some v)"
    unfolding len using assms(6) by blast
  let ?s2 = "(if i' < length ?d then set_method SSD (fst (?d ! i')) else (\<lambda>s. s))
               (?s1\<lparr>calls := calls ?s1 @ map (\<lambda>p. (SSD, fst p)) (take (Suc i') ?d)\<rparr>)"
  obtain r' where r': "first_working SSD ?d world ?s1 = (Inr r', ?s2)"
    using first_working_walk [of i' ?d world ?s1 SSD, OF assms(4) n2 s2] by blast
  have d: "detect_best_methods world self = (Inr (), ?s2)"
    by (simp add: detect_best_methods_def r ds r')
  have e: "?s2 = self\<lparr>cpu_method :=
                     (if i < length ?c then Some (fst (?c ! i)) else cpu_method self),
                   ssd_method :=
                     (if i' < length ?d then Some (fst (?d ! i')) else ssd_method self),
                   calls := calls self
                     @ map (\<lambda>p. (CPU, fst p)) (take (Suc i) ?c)
                     @ map (\<lambda>p. (SSD, fst p)) (take (Suc i') ?d)\<rparr>"
    by (simp add: set_method_def)
  show ?thesis unfolding d e ..
qed

text \<open>
  C3. The discovery pass calls the probes of each chain in priority order, stores the
  name of the first probe that returns a value as the selected method of the metric and
  calls no probe after it. Here \<open>i\<close> and \<open>i'\<close> are the positions of those first probes
  in the CPU and the storage chain (the length of the chain when every probe returns
  None, and then the slot is left as it was). The hypotheses say nothing of the probes
  after \<open>i\<close> and \<open>i'\<close>, whose outcomes therefore do not change the result; the call log
  shows that they are not invoked.
\<close>

theorem detect_selects_first_working:
  assumes "i \<le> length (cpu_methods self)"
    and "\<forall>j<i. snd (cpu_methods self ! j) (world (length (calls self) + j)) = Inr None"
    and "i < length (cpu_methods self) \<longrightarrow>
          (\<exists>v. snd (cpu_methods self ! i) (world (length (calls self) + i)) = Inr (Some v))"
    and "i' \<le> length (ssd_methods self)"
    and "\<forall>j<i'. snd (ssd_methods self ! j)
            (world (length (calls self) + length (take (Suc i) (cpu_methods self)) + j))
          = Inr None"
    and "i' < length (ssd_methods self) \<longrightarrow>
          (\<exists>v. snd (ssd_methods self ! i')
             (world (length (calls self) + length (take (Suc i) (cpu_methods self)) + i'))
           = Inr (Some v))"
  shows "detect_best_methods world self
           = (Inr (),
              self\<lparr>cpu_method :=
                     (if i < length (cpu_methods self)
                      then Some (fst (cpu_methods self ! i)) else cpu_method self),
                   ssd_method :=
                     (if i' < length (ssd_methods self)
                      then Some (fst (ssd_methods self ! i')) else ssd_method self),
                   calls := calls self
                     @ map (\<lambda>p. (CPU, fst p)) (take (Suc i) (cpu_methods self))
                     @ map (\<lambda>p. (SSD, fst p)) (take (Suc i') (ssd_methods self))\<rparr>)"
  using assms by (rule detect_best_methods_walk)

text \<open>
  Construction on \<open>office_machine\<close>: the second CPU probe and the third storage probe are
  selected, although psutil and the storage namespace, lower in their chains, would
  answer too.
\<close>

theorem detect_selects_first_working_witness:
  "init_wmi_providers office_machine new_monitor = office_monitor
   \<and> cpu_temp_lhm office_monitor office_machine = Inr None
   \<and> cpu_temp_ohm office_monitor office_machine = Inr (Some (111 / 2))
   \<and> cpu_temp_psutil office_monitor office_machine = Inr (Some 60)
   \<and> ssd_temp_lhm office_monitor office_machine = Inr None
   \<and> ssd_temp_ohm office_monitor office_machine = Inr None
   \<and> ssd_temp_ps_reliability office_monitor office_machine = Inr (Some 38)
   \<and> ssd_temp_wmi_storage office_monitor office_machine = Inr (Some 40)
   \<and> detect_best_methods (\<lambda>n. office_machine) office_monitor
       = (Inr (),
          office_monitor\<lparr>cpu_method := Some ''ohm_wmi'', ssd_method := Some ''ps_reliability'',
            calls := [(CPU, ''lhm''), (CPU, ''ohm_wmi''),
                      (SSD, ''lhm''), (SSD, ''ohm_wmi''), (SSD, ''ps_reliability'')]\<rparr>)
   \<and> HardwareMonitor_init (\<lambda>n. office_machine)
       = Inr (office_monitor\<lparr>cpu_method := Some ''ohm_wmi'',
                ssd_method := Some ''ps_reliability'',
                calls := [(CPU, ''lhm''), (CPU, ''ohm_wmi''),
                          (SSD, ''lhm''), (SSD, ''ohm_wmi''), (SSD, ''ps_reliability'')]\<rparr>)"
proof -
  let ?M = office_monitor and ?B = office_machine
  have m: "init_wmi_providers ?B new_monitor = ?M" by code_simp
  have c: "cpu_temp_lhm ?M ?B = Inr None" "cpu_temp_ohm ?M ?B = Inr (Some (111 / 2))"
      "cpu_temp_psutil ?M ?B = Inr (Some 60)"
    by code_simp+
  have s: "ssd_temp_lhm ?M ?B = Inr None" "ssd_temp_ohm ?M ?B = Inr None"
      "ssd_temp_ps_reliability ?M ?B = Inr (Some 38)" "ssd_temp_wmi_storage ?M ?B = Inr (Some 40)"
    by code_simp+
  have n: "calls ?M = []" by (simp add: office_monitor_def new_monitor_def)
  have h1: "(1::nat) \<le> length (cpu_methods ?M)" by (simp add: cpu_methods_def)
  have h2: "\<forall>j<1. snd (cpu_methods ?M ! j) ((\<lambda>n. ?B) (length (calls ?M) + j)) = Inr None"
    using c by (simp add: cpu_methods_def)
  have h3: "1 < length (cpu_methods ?M) \<longrightarrow>
      (\<exists>v. snd (cpu_methods ?M ! 1) ((\<lambda>n. ?B) (length (calls ?M) + 1)) = Inr (Some v))"
  proof -
    have "snd (cpu_methods ?M ! 1) ((\<lambda>n. ?B) (length (calls ?M) + 1)) = Inr (Some (111 / 2))"
      using c by (simp add: cpu_methods_def)
    then show ?thesis by blast
  qed
  have h4: "(2::nat) \<le> length (ssd_methods ?M)" by (simp add: ssd_methods_def)
  have h5: "\<forall>j<2. snd (ssd_methods ?M ! j)
        ((\<lambda>n. ?B) (length (calls ?M) + length (take (Suc 1) (cpu_methods ?M)) + j)) = Inr None"
    using s by (simp add: ssd_methods_def eval_nat_numeral All_less_Suc)
  have h6: "2 < length (ssd_methods ?M) \<longrightarrow>
      (\<exists>v. snd (ssd_methods ?M ! 2)
        ((\<lambda>n. ?B) (length (calls ?M) + length (take (Suc 1) (cpu_methods ?M)) + 2))
       = Inr (Some v))"
  proof -
    have "snd (ssd_methods ?M ! 2)
        ((\<lambda>n. ?B) (length (calls ?M) + length (take (Suc 1) (cpu_methods ?M)) + 2))
       = Inr (Some 38)"
      using s by (simp add: ssd_methods_def)
    then show ?thesis by blast
  qed
  have d: "detect_best_methods (\<lambda>n. ?B) ?M
       = (Inr (),
          ?M\<lparr>cpu_method := Some ''ohm_wmi'', ssd_method := Some ''ps_reliability'',
            calls := [(CPU, ''lhm''), (CPU, ''ohm_wmi''),
                      (SSD, ''lhm''), (SSD, ''ohm_wmi''), (SSD, ''ps_reliability'')]\<rparr>)"
    using detect_selects_first_working [OF h1 h2 h3 h4 h5 h6]
    by (simp add: n cpu_methods_def ssd_methods_def)
  have i: "HardwareMonitor_init (\<lambda>n. ?B)
       = Inr (?M\<lparr>cpu_method := Some ''ohm_wmi'', ssd_method := Some ''ps_reliability'',
                calls := [(CPU, ''lhm''), (CPU, ''ohm_wmi''),
                          (SSD, ''lhm''), (SSD, ''ohm_wmi''), (SSD, ''ps_reliability'')]\<rparr>)"
    using m d by (simp add: HardwareMonitor_init_def)
  show ?thesis using m c s d i by blast
qed

section \<open>Properties of the accessors\<close>

lemma sticky_call_taken:
  "method = Some name \<Longrightarrow> map_of dispatch name = Some func \<Longrightarrow> name \<noteq> []
   \<Longrightarrow> sticky_call k method dispatch world self
       = (func (world (length (calls self))), self\<lparr>calls := calls self @ [(k, name)]\<rparr>)"
  by (simp add: sticky_call_def call_probe_def)

lemma cpu_dispatch_empty_key: "map_of (cpu_dispatch self) [] = None"
  by (simp add: cpu_dispatch_def)

lemma ssd_dispatch_empty_key: "map_of (ssd_dispatch self) [] = None"
  by (simp add: ssd_dispatch_def)

lemma cpu_dispatch_key: "map_of (cpu_dispatch self) name = Some func \<Longrightarrow> name \<noteq> []"
  using cpu_dispatch_empty_key [of self] by auto

lemma ssd_dispatch_key: "map_of (ssd_dispatch self) name = Some func \<Longrightarrow> name \<noteq> []"
  using ssd_dispatch_empty_key [of self] by auto

lemma cpu_dispatch_calls [simp]: "cpu_dispatch (self\<lparr>calls := c\<rparr>) = cpu_dispatch self"
  unfolding cpu_dispatch_methods by (rule cpu_methods_handles) simp_all

lemma ssd_dispatch_calls [simp]: "ssd_dispatch (self\<lparr>calls := c\<rparr>) = ssd_dispatch self"
  unfolding ssd_dispatch_methods by (rule ssd_methods_handles) simp_all

text \<open>The selected probe returns a value: the accessor returns after that one call.\<close>

lemma get_cpu_temperature_fast:
  assumes "cpu_method self = Some name" "map_of (cpu_dispatch self) name = Some func"
    and "func (world (length (calls self))) = Inr (Some v)"
  shows "get_cpu_temperature world self
           = (Inr (Some v), self\<lparr>calls := calls self @ [(CPU, name)]\<rparr>)"
  using assms cpu_dispatch_key [OF assms(2)]
  by (simp add: get_cpu_temperature_def sticky_call_taken)

lemma get_ssd_temperature_fast:
  assumes "ssd_method self = Some name" "map_of (ssd_dispatch self) name = Some func"
    and "func (world (length (calls self))) = Inr (Some v)"
  shows "get_ssd_temperature world self
           = (Inr (Some v), self\<lparr>calls := calls self @ [(SSD, name)]\<rparr>)"
  using assms ssd_dispatch_key [OF assms(2)]
  by (simp add: get_ssd_temperature_def sticky_call_taken)

text \<open>The selected probe returns None: the accessor walks the whole chain next.\<close>

lemma get_cpu_temperature_sweep:
  assumes "cpu_method self = Some name" "map_of (cpu_dispatch self) name = Some func"
    and "func (world (length (calls self))) = Inr None"
  shows "get_cpu_temperature world self
           = first_working CPU (cpu_dispatch self) world (self\<lparr>calls := calls self @ [(CPU, name)]\<rparr>)"
  using assms cpu_dispatch_key [OF assms(2)]
  by (simp add: get_cpu_temperature_def sticky_call_taken)

lemma get_ssd_temperature_sweep:
  assumes "ssd_method self = Some name" "map_of (ssd_dispatch self) name = Some func"
    and "func (world (length (calls self))) = Inr None"
  shows "get_ssd_temperature world self
           = first_working SSD (ssd_dispatch self) world (self\<lparr>calls := calls self @ [(SSD, name)]\<rparr>)"
  using assms ssd_dispatch_key [OF assms(2)]
  by (simp add: get_ssd_temperature_def sticky_call_taken)

text \<open>No method is selected: the accessor walks the chain at once.\<close>

lemma get_cpu_temperature_unselected:
  "cpu_method self = None \<Longrightarrow>
     get_cpu_temperature world self = first_working CPU (cpu_dispatch self) world self"
  by (simp add: get_cpu_temperature_def sticky_call_def)

lemma get_ssd_temperature_unselected:
  "ssd_method self = None \<Longrightarrow>
     get_ssd_temperature world self = first_working SSD (ssd_dispatch self) world self"
  by (simp add: get_ssd_temperature_def sticky_call_def)

text \<open>
  C4. With a method selected whose probe still returns a value, \<open>get_cpu_temperature\<close>
  and \<open>get_ssd_temperature\<close> invoke that probe and no other (the call log grows by
  exactly this one call) and return its value; the object is otherwise unchanged.
\<close>

theorem sticky_probe_only:
  "(cpu_method self = Some name \<and> map_of (cpu_dispatch self) name = Some func
      \<and> func (world (length (calls self))) = Inr (Some v)
    \<longrightarrow> get_cpu_temperature world self
          = (Inr (Some v), self\<lparr>calls := calls self @ [(CPU, name)]\<rparr>))
   \<and> (ssd_method self = Some name' \<and> map_of (ssd_dispatch self) name' = Some func'
      \<and> func' (world (length (calls self))) = Inr (Some v')
    \<longrightarrow> get_ssd_temperature world self
          = (Inr (Some v'), self\<lparr>calls := calls self @ [(SSD, name')]\<rparr>))"
  using get_cpu_temperature_fast [of self name func world v]
    get_ssd_temperature_fast [of self name' func' world v']
  by blast

text \<open>
  On the machine where psutil gives 50 degrees and the storage namespace 38, with the
  object that construction yields there.
\<close>

theorem sticky_probe_only_witness:
  "cpu_method steady_monitor = Some ''psutil''
   \<and> cpu_temp_psutil steady_monitor (sensor_machine 50 38) = Inr (Some 50)
   \<and> get_cpu_temperature (\<lambda>n. sensor_machine 50 38) steady_monitor
       = (Inr (Some 50), steady_monitor\<lparr>calls := calls steady_monitor @ [(CPU, ''psutil'')]\<rparr>)
   \<and> ssd_method steady_monitor = Some ''wmi_storage''
   \<and> ssd_temp_wmi_storage steady_monitor (sensor_machine 50 38) = Inr (Some 38)
   \<and> get_ssd_temperature (\<lambda>n. sensor_machine 50 38) steady_monitor
       = (Inr (Some 38), steady_monitor\<lparr>calls := calls steady_monitor @ [(SSD, ''wmi_storage'')]\<rparr>)"
proof -
  have c1: "cpu_method steady_monitor = Some ''psutil''"
    and s1: "ssd_method steady_monitor = Some ''wmi_storage''"
    by (simp_all add: steady_monitor_def)
  have c2: "map_of (cpu_dispatch steady_monitor) ''psutil'' = Some (cpu_temp_psutil steady_monitor)"
    by (simp add: cpu_dispatch_def)
  have s2: "map_of (ssd_dispatch steady_monitor) ''wmi_storage''
              = Some (ssd_temp_wmi_storage steady_monitor)"
    by (simp add: ssd_dispatch_def)
  have c3: "cpu_temp_psutil steady_monitor (sensor_machine 50 38) = Inr (Some 50)"
    by code_simp
  have s3: "ssd_temp_wmi_storage steady_monitor (sensor_machine 50 38) = Inr (Some 38)"
    by code_simp
  show ?thesis
    using c1 c2 c3 s1 s2 s3
      sticky_probe_only [where self = steady_monitor and world = "\<lambda>n. sensor_machine 50 38"
        and name = "''psutil''" and func = "cpu_temp_psutil steady_monitor" and v = 50
        and name' = "''wmi_storage''" and func' = "ssd_temp_wmi_storage steady_monitor"
        and v' = 38]
    by simp
qed

text \<open>The selected-probe call changes nothing but the call log.\<close>

lemma sticky_call_fields:
  "wmi_ohm (snd (sticky_call k method dispatch world self)) = wmi_ohm self"
  "wmi_root (snd (sticky_call k method dispatch world self)) = wmi_root self"
  "wmi_storage (snd (sticky_call k method dispatch world self)) = wmi_storage self"
  "cpu_method (snd (sticky_call k method dispatch world self)) = cpu_method self"
  "ssd_method (snd (sticky_call k method dispatch world self)) = ssd_method self"
  by (simp_all add: sticky_call_def call_probe_def split: option.splits)

lemma cpu_dispatch_after_sticky:
  "cpu_dispatch (snd (sticky_call k method dispatch world self)) = cpu_dispatch self"
  unfolding cpu_dispatch_methods by (rule cpu_methods_handles) (simp_all add: sticky_call_fields)

lemma ssd_dispatch_after_sticky:
  "ssd_dispatch (snd (sticky_call k method dispatch world self)) = ssd_dispatch self"
  unfolding ssd_dispatch_methods by (rule ssd_methods_handles) (simp_all add: sticky_call_fields)

text \<open>What an accessor can do to the object.\<close>

lemma get_cpu_temperature_fields:
  "wmi_ohm (snd (get_cpu_temperature world self)) = wmi_ohm self
   \<and> wmi_root (snd (get_cpu_temperature world self)) = wmi_root self
   \<and> wmi_storage (snd (get_cpu_temperature world self)) = wmi_storage self
   \<and> ssd_method (snd (get_cpu_temperature world self)) = ssd_method self
   \<and> (cpu_method (snd (get_cpu_temperature world self)) = cpu_method self
      \<or> cpu_method (snd (get_cpu_temperature world self)) \<in> Some ` fst ` set (cpu_dispatch self))"
proof -
  let ?st = "sticky_call CPU (cpu_method self) (cpu_dispatch self) world self"
  let ?fw = "first_working CPU (cpu_dispatch self) world (snd ?st)"
  obtain r s where st: "?st = (r, s)" by (cases ?st)
  have s: "s = snd ?st" by (simp add: st)
  have d: "cpu_dispatch s = cpu_dispatch self"
    unfolding s by (rule cpu_dispatch_after_sticky)
  have "snd (get_cpu_temperature world self) = snd ?st
        \<or> snd (get_cpu_temperature world self) = snd ?fw"
    by (simp add: get_cpu_temperature_def st d split: sum.splits option.splits)
  then show ?thesis
    using first_working_handles [of CPU "cpu_dispatch self" world "snd ?st"]
      first_working_methods [of CPU "cpu_dispatch self" world "snd ?st"]
    by (force simp: sticky_call_fields)
qed

lemma get_ssd_temperature_fields:
  "wmi_ohm (snd (get_ssd_temperature world self)) = wmi_ohm self
   \<and> wmi_root (snd (get_ssd_temperature world self)) = wmi_root self
   \<and> wmi_storage (snd (get_ssd_temperature world self)) = wmi_storage self
   \<and> cpu_method (snd (get_ssd_temperature world self)) = cpu_method self
   \<and> (ssd_method (snd (get_ssd_temperature world self)) = ssd_method self
      \<or> ssd_method (snd (get_ssd_temperature world self)) \<in> Some ` fst ` set (ssd_dispatch self))"
proof -
  let ?st = "sticky_call SSD (ssd_method self) (ssd_dispatch self) world self"
  let ?fw = "first_working SSD (ssd_dispatch self) world (snd ?st)"
  obtain r s where st: "?st = (r, s)" by (cases ?st)
  have s: "s = snd ?st" by (simp add: st)
  have d: "ssd_dispatch s = ssd_dispatch self"
    unfolding s by (rule ssd_dispatch_after_sticky)
  have "snd (get_ssd_temperature world self) = snd ?st
        \<or> snd (get_ssd_temperature world self) = snd ?fw"
    by (simp add: get_ssd_temperature_def st d split: sum.splits option.splits)
  then show ?thesis
    using first_working_handles [of SSD "ssd_dispatch self" world "snd ?st"]
      first_working_methods [of SSD "ssd_dispatch self" world "snd ?st"]
    by (force simp: sticky_call_fields)
qed

lemma read_sensors_state:
  "snd (read_sensors world self) = self
   \<or> snd (read_sensors world self) = snd (get_cpu_temperature world self)
   \<or> snd (read_sensors world self)
       = snd (get_ssd_temperature world (snd (get_cpu_temperature world self)))"
  by (simp add: read_sensors_def split: sum.splits prod.splits)

lemma detect_best_methods_state:
  "snd (detect_best_methods world self) = snd (first_working CPU (cpu_methods self) world self)
   \<or> snd (detect_best_methods world self)
       = snd (first_working SSD (ssd_methods self) world
                (snd (first_working CPU (cpu_methods self) world self)))"
proof -
  let ?fw = "first_working CPU (cpu_methods self) world self"
  obtain r s where fw: "?fw = (r, s)" by (cases ?fw)
  have s: "s = snd ?fw" by (simp add: fw)
  have d: "ssd_methods s = ssd_methods self"
    unfolding s by (rule ssd_methods_after_walk)
  show ?thesis
    by (simp add: detect_best_methods_def fw d split: sum.splits prod.splits)
qed

text \<open>The walk after a failed selected probe finds probe \<open>i\<close> of the chain.\<close>

lemma get_cpu_temperature_refound:
  assumes "cpu_method self = Some name" "map_of (cpu_dispatch self) name = Some func"
    and "func (world (length (calls self))) = Inr None"
    and a: "i < length (cpu_dispatch self)"
    and b: "\<And>j. j < i \<Longrightarrow>
          snd (cpu_dispatch self ! j) (world (Suc (length (calls self)) + j)) = Inr None"
    and c: "snd (cpu_dispatch self ! i) (world (Suc (length (calls self)) + i)) = Inr (Some v)"
  shows "get_cpu_temperature world self
          = (Inr (Some v),
             self\<lparr>cpu_method := Some (fst (cpu_dispatch self ! i)),
                  calls := calls self @ (CPU, name)
                           # map (\<lambda>p. (CPU, fst p)) (take (Suc i) (cpu_dispatch self))\<rparr>)"
proof -
  let ?s = "self\<lparr>calls := calls self @ [(CPU, name)]\<rparr>"
  have len: "length (calls ?s) = Suc (length (calls self))" by simp
  have b': "\<And>j. j < i \<Longrightarrow> snd (cpu_dispatch self ! j) (world (length (calls ?s) + j)) = Inr None"
    unfolding len by (rule b)
  have c': "snd (cpu_dispatch self ! i) (world (length (calls ?s) + i)) = Inr (Some v)"
    unfolding len by (rule c)
  have g: "get_cpu_temperature world self = first_working CPU (cpu_dispatch self) world ?s"
    using assms(1-3) by (rule get_cpu_temperature_sweep)
  have fw: "first_working CPU (cpu_dispatch self) world ?s
      = (Inr (Some v),
         set_method CPU (fst (cpu_dispatch self ! i))
           (?s\<lparr>calls := calls ?s @ map (\<lambda>p. (CPU, fst p)) (take (Suc i) (cpu_dispatch self))\<rparr>))"
    by (rule first_working_found [OF a b' c'])
  show ?thesis unfolding g fw by (simp add: set_method_def)
qed

lemma get_ssd_temperature_refound:
  assumes "ssd_method self = Some name" "map_of (ssd_dispatch self) name = Some func"
    and "func (world (length (calls self))) = Inr None"
    and a: "i < length (ssd_dispatch self)"
    and b: "\<And>j. j < i \<Longrightarrow>
          snd (ssd_dispatch self ! j) (world (Suc (length (calls self)) + j)) = Inr None"
    and c: "snd (ssd_dispatch self ! i) (world (Suc (length (calls self)) + i)) = Inr (Some v)"
  shows "get_ssd_temperature world self
          = (Inr (Some v),
             self\<lparr>ssd_method := Some (fst (ssd_dispatch self ! i)),
                  calls := calls self @ (SSD, name)
                           # map (\<lambda>p. (SSD, fst p)) (take (Suc i) (ssd_dispatch self))\<rparr>)"
proof -
  let ?s = "self\<lparr>calls := calls self @ [(SSD, name)]\<rparr>"
  have len: "length (calls ?s) = Suc (length (calls self))" by simp
  have b': "\<And>j. j < i \<Longrightarrow> snd (ssd_dispatch self ! j) (world (length (calls ?s) + j)) = Inr None"
    unfolding len by (rule b)
  have c': "snd (ssd_dispatch self ! i) (world (length (calls ?s) + i)) = Inr (Some v)"
    unfolding len by (rule c)
  have g: "get_ssd_temperature world self = first_working SSD (ssd_dispatch self) world ?s"
    using assms(1-3) by (rule get_ssd_temperature_sweep)
  have fw: "first_working SSD (ssd_dispatch self) world ?s
      = (Inr (Some v),
         set_method SSD (fst (ssd_dispatch self ! i))
           (?s\<lparr>calls := calls ?s @ map (\<lambda>p. (SSD, fst p)) (take (Suc i) (ssd_dispatch self))\<rparr>))"
    by (rule first_working_found [OF a b' c'])
  show ?thesis unfolding g fw by (simp add: set_method_def)
qed

text \<open>The walk after a failed selected probe finds nothing.\<close>

lemma get_cpu_temperature_exhausted:
  assumes "cpu_method self = Some name" "map_of (cpu_dispatch self) name = Some func"
    and "func (world (length (calls self))) = Inr None"
    and b: "\<And>j. j < length (cpu_dispatch self) \<Longrightarrow>
          snd (cpu_dispatch self ! j) (world (Suc (length (calls self)) + j)) = Inr None"
  shows "get_cpu_temperature world self
          = (Inr None,
             self\<lparr>calls := calls self @ (CPU, name)
                           # map (\<lambda>p. (CPU, fst p)) (cpu_dispatch self)\<rparr>)"
proof -
  let ?s = "self\<lparr>calls := calls self @ [(CPU, name)]\<rparr>"
  have len: "length (calls ?s) = Suc (length (calls self))" by simp
  have b': "\<And>j. j < length (cpu_dispatch self) \<Longrightarrow>
      snd (cpu_dispatch self ! j) (world (length (calls ?s) + j)) = Inr None"
    unfolding len by (rule b)
  have g: "get_cpu_temperature world self = first_working CPU (cpu_dispatch self) world ?s"
    using assms(1-3) by (rule get_cpu_temperature_sweep)
  have fw: "first_working CPU (cpu_dispatch self) world ?s
      = (Inr None, ?s\<lparr>calls := calls ?s @ map (\<lambda>p. (CPU, fst p)) (cpu_dispatch self)\<rparr>)"
    by (rule first_working_exhausted [OF b'])
  show ?thesis unfolding g fw by simp
qed

lemma get_ssd_temperature_exhausted:
  assumes "ssd_method self = Some name" "map_of (ssd_dispatch self) name = Some func"
    and "func (world (length (calls self))) = Inr None"
    and b: "\<And>j. j < length (ssd_dispatch self) \<Longrightarrow>
          snd (ssd_dispatch self ! j) (world (Suc (length (calls self)) + j)) = Inr None"
  shows "get_ssd_temperature world self
          = (Inr None,
             self\<lparr>calls := calls self @ (SSD, name)
                           # map (\<lambda>p. (SSD, fst p)) (ssd_dispatch self)\<rparr>)"
proof -
  let ?s = "self\<lparr>calls := calls self @ [(SSD, name)]\<rparr>"
  have len: "length (calls ?s) = Suc (length (calls self))" by simp
  have b': "\<And>j. j < length (ssd_dispatch self) \<Longrightarrow>
      snd (ssd_dispatch self ! j) (world (length (calls ?s) + j)) = Inr None"
    unfolding len by (rule b)
  have g: "get_ssd_temperature world self = first_working SSD (ssd_dispatch self) world ?s"
    using assms(1-3) by (rule get_ssd_temperature_sweep)
  have fw: "first_working SSD (ssd_dispatch self) world ?s
      = (Inr None, ?s\<lparr>calls := calls ?s @ map (\<lambda>p. (SSD, fst p)) (ssd_dispatch self)\<rparr>)"
    by (rule first_working_exhausted [OF b'])
  show ?thesis unfolding g fw by simp
qed

text \<open>
  C5. When the selected probe returns None on a read, the same call of
  \<open>get_cpu_temperature\<close> or \<open>get_ssd_temperature\<close> walks the whole chain in its declared
  order (the selected probe is tried again in its place), returns the value of the
  first probe that returns one, and stores that probe's name as the selected method.
  Here \<open>i\<close> is the position of that probe in the chain.
\<close>

theorem sticky_failure_sweeps_chain:
  "(cpu_method self = Some name \<and> map_of (cpu_dispatch self) name = Some func
      \<and> func (world (length (calls self))) = Inr None
      \<and> i < length (cpu_dispatch self)
      \<and> (\<forall>j<i. snd (cpu_dispatch self ! j) (world (Suc (length (calls self)) + j)) = Inr None)
      \<and> snd (cpu_dispatch self ! i) (world (Suc (length (calls self)) + i)) = Inr (Some v)
    \<longrightarrow> get_cpu_temperature world self
          = (Inr (Some v),
             self\<lparr>cpu_method := Some (fst (cpu_dispatch self ! i)),
                  calls := calls self @ (CPU, name)
                           # map (\<lambda>p. (CPU, fst p)) (take (Suc i) (cpu_dispatch self))\<rparr>))
   \<and> (ssd_method self = Some name' \<and> map_of (ssd_dispatch self) name' = Some func'
      \<and> func' (world (length (calls self))) = Inr None
      \<and> i' < length (ssd_dispatch self)
      \<and> (\<forall>j<i'. snd (ssd_dispatch self ! j) (world (Suc (length (calls self)) + j)) = Inr None)
      \<and> snd (ssd_dispatch self ! i') (world (Suc (length (calls self)) + i')) = Inr (Some v')
    \<longrightarrow> get_ssd_temperature world self
          = (Inr (Some v'),
             self\<lparr>ssd_method := Some (fst (ssd_dispatch self ! i')),
                  calls := calls self @ (SSD, name')
                           # map (\<lambda>p. (SSD, fst p)) (take (Suc i') (ssd_dispatch self))\<rparr>))"
  using get_cpu_temperature_refound [of self name func world i v]
    get_ssd_temperature_refound [of self name' func' world i' v']
  by blast

text \<open>
  On the machine where psutil gives 50 degrees and the storage namespace 38, with the
  PowerShell probes selected: both now return None, the walks reach the last probe of
  each chain, and its name replaces the selected one.
\<close>

theorem sticky_failure_sweeps_chain_witness:
  "cpu_method powershell_monitor = Some ''ps_acpi''
   \<and> cpu_temp_ps_acpi powershell_monitor (sensor_machine 50 38) = Inr None
   \<and> cpu_temp_lhm powershell_monitor (sensor_machine 50 38) = Inr None
   \<and> cpu_temp_ohm powershell_monitor (sensor_machine 50 38) = Inr None
   \<and> cpu_temp_wmi_acpi powershell_monitor (sensor_machine 50 38) = Inr None
   \<and> cpu_temp_psutil powershell_monitor (sensor_machine 50 38) = Inr (Some 50)
   \<and> get_cpu_temperature (\<lambda>n. sensor_machine 50 38) powershell_monitor
       = (Inr (Some 50),
          powershell_monitor\<lparr>cpu_method := Some ''psutil'',
            calls := calls powershell_monitor
              @ [(CPU, ''ps_acpi''), (CPU, ''lhm''), (CPU, ''ohm_wmi''), (CPU, ''wmi_acpi''),
                 (CPU, ''ps_acpi''), (CPU, ''psutil'')]\<rparr>)
   \<and> ssd_method powershell_monitor = Some ''ps_reliability''
   \<and> ssd_temp_ps_reliability powershell_monitor (sensor_machine 50 38) = Inr None
   \<and> ssd_temp_lhm powershell_monitor (sensor_machine 50 38) = Inr None
   \<and> ssd_temp_ohm powershell_monitor (sensor_machine 50 38) = Inr None
   \<and> ssd_temp_wmi_storage powershell_monitor (sensor_machine 50 38) = Inr (Some 38)
   \<and> get_ssd_temperature (\<lambda>n. sensor_machine 50 38) powershell_monitor
       = (Inr (Some 38),
          powershell_monitor\<lparr>ssd_method := Some ''wmi_storage'',
            calls := calls powershell_monitor
              @ [(SSD, ''ps_reliability''), (SSD, ''lhm''), (SSD, ''ohm_wmi''),
                 (SSD, ''ps_reliability''), (SSD, ''wmi_storage'')]\<rparr>)"
proof -
  let ?M = powershell_monitor and ?B = "sensor_machine 50 38"
  have c1: "cpu_method ?M = Some ''ps_acpi''" and s1: "ssd_method ?M = Some ''ps_reliability''"
    by (simp_all add: powershell_monitor_def)
  have c2: "map_of (cpu_dispatch ?M) ''ps_acpi'' = Some (cpu_temp_ps_acpi ?M)"
    by (simp add: cpu_dispatch_def)
  have s2: "map_of (ssd_dispatch ?M) ''ps_reliability'' = Some (ssd_temp_ps_reliability ?M)"
    by (simp add: ssd_dispatch_def)
  have c3: "cpu_temp_ps_acpi ?M ?B = Inr None" "cpu_temp_lhm ?M ?B = Inr None"
      "cpu_temp_ohm ?M ?B = Inr None" "cpu_temp_wmi_acpi ?M ?B = Inr None"
      "cpu_temp_psutil ?M ?B = Inr (Some 50)"
    by code_simp+
  have s3: "ssd_temp_ps_reliability ?M ?B = Inr None" "ssd_temp_lhm ?M ?B = Inr None"
      "ssd_temp_ohm ?M ?B = Inr None" "ssd_temp_wmi_storage ?M ?B = Inr (Some 38)"
    by code_simp+
  have c4: "\<forall>j<4. snd (cpu_dispatch ?M ! j) ?B = Inr None"
    using c3 by (simp add: cpu_dispatch_def eval_nat_numeral All_less_Suc)
  have s4: "\<forall>j<3. snd (ssd_dispatch ?M ! j) ?B = Inr None"
    using s3 by (simp add: ssd_dispatch_def eval_nat_numeral All_less_Suc)
  have c5: "snd (cpu_dispatch ?M ! 4) ?B = Inr (Some 50)"
    using c3 by (simp add: cpu_dispatch_def)
  have s5: "snd (ssd_dispatch ?M ! 3) ?B = Inr (Some 38)"
    using s3 by (simp add: ssd_dispatch_def)
  have c6: "(4::nat) < length (cpu_dispatch ?M)" by (simp add: cpu_dispatch_def)
  have s6: "(3::nat) < length (ssd_dispatch ?M)" by (simp add: ssd_dispatch_def)
  have c7: "fst (cpu_dispatch ?M ! 4) = ''psutil''"
    "map (\<lambda>p. (CPU, fst p)) (take (Suc 4) (cpu_dispatch ?M))
       = [(CPU, ''lhm''), (CPU, ''ohm_wmi''), (CPU, ''wmi_acpi''), (CPU, ''ps_acpi''),
          (CPU, ''psutil'')]"
    by (simp_all add: cpu_dispatch_def)
  have s7: "fst (ssd_dispatch ?M ! 3) = ''wmi_storage''"
    "map (\<lambda>p. (SSD, fst p)) (take (Suc 3) (ssd_dispatch ?M))
       = [(SSD, ''lhm''), (SSD, ''ohm_wmi''), (SSD, ''ps_reliability''), (SSD, ''wmi_storage'')]"
    by (simp_all add: ssd_dispatch_def)
  note inst = sticky_failure_sweeps_chain [where self = ?M and world = "\<lambda>n. ?B"
        and name = "''ps_acpi''" and func = "cpu_temp_ps_acpi ?M" and i = 4 and v = 50
        and name' = "''ps_reliability''" and func' = "ssd_temp_ps_reliability ?M"
        and i' = 3 and v' = 38]
  have "get_cpu_temperature (\<lambda>n. ?B) ?M
          = (Inr (Some 50),
             ?M\<lparr>cpu_method := Some (fst (cpu_dispatch ?M ! 4)),
                  calls := calls ?M @ (CPU, ''ps_acpi'')
                           # map (\<lambda>p. (CPU, fst p)) (take (Suc 4) (cpu_dispatch ?M))\<rparr>)"
    using inst c1 c2 c3(1) c4 c5 c6 by blast
  moreover have "get_ssd_temperature (\<lambda>n. ?B) ?M
          = (Inr (Some 38),
             ?M\<lparr>ssd_method := Some (fst (ssd_dispatch ?M ! 3)),
                  calls := calls ?M @ (SSD, ''ps_reliability'')
                           # map (\<lambda>p. (SSD, fst p)) (take (Suc 3) (ssd_dispatch ?M))\<rparr>)"
    using inst s1 s2 s3(1) s4 s5 s6 by blast
  ultimately show ?thesis
    unfolding c7 s7 using c1 s1 c3 s3 by simp
qed

text \<open>
  C1, as the code has it. When the selected probe returns None and the walk over the
  whole chain that follows finds no probe returning a value, the accessor returns None
  and leaves the selected method as it was: the slot keeps the name of the previously
  selected probe, and the label of the metric keeps naming that probe. (The only
  assignments to a method slot store the name of a probe that has just returned a
  value.)
\<close>

theorem exhausted_read_keeps_method:
  "(cpu_method self = Some name \<and> map_of (cpu_dispatch self) name = Some func
      \<and> func (world (length (calls self))) = Inr None
      \<and> (\<forall>j<length (cpu_dispatch self).
            snd (cpu_dispatch self ! j) (world (Suc (length (calls self)) + j)) = Inr None)
    \<longrightarrow> get_cpu_temperature world self
          = (Inr None,
             self\<lparr>calls := calls self @ (CPU, name)
                           # map (\<lambda>p. (CPU, fst p)) (cpu_dispatch self)\<rparr>)
        \<and> cpu_method (snd (get_cpu_temperature world self)) = Some name
        \<and> cpu_method_label (snd (get_cpu_temperature world self)) = cpu_method_label self)
   \<and> (ssd_method self = Some name' \<and> map_of (ssd_dispatch self) name' = Some func'
      \<and> func' (world (length (calls self))) = Inr None
      \<and> (\<forall>j<length (ssd_dispatch self).
            snd (ssd_dispatch self ! j) (world (Suc (length (calls self)) + j)) = Inr None)
    \<longrightarrow> get_ssd_temperature world self
          = (Inr None,
             self\<lparr>calls := calls self @ (SSD, name')
                           # map (\<lambda>p. (SSD, fst p)) (ssd_dispatch self)\<rparr>)
        \<and> ssd_method (snd (get_ssd_temperature world self)) = Some name'
        \<and> ssd_method_label (snd (get_ssd_temperature world self)) = ssd_method_label self)"
proof (intro conjI impI)
  assume h: "cpu_method self = Some name \<and> map_of (cpu_dispatch self) name = Some func
      \<and> func (world (length (calls self))) = Inr None
      \<and> (\<forall>j<length (cpu_dispatch self).
            snd (cpu_dispatch self ! j) (world (Suc (length (calls self)) + j)) = Inr None)"
  then have g: "get_cpu_temperature world self
          = (Inr None,
             self\<lparr>calls := calls self @ (CPU, name)
                           # map (\<lambda>p. (CPU, fst p)) (cpu_dispatch self)\<rparr>)"
    using get_cpu_temperature_exhausted [of self name func world] by blast
  show "get_cpu_temperature world self
          = (Inr None,
             self\<lparr>calls := calls self @ (CPU, name)
                           # map (\<lambda>p. (CPU, fst p)) (cpu_dispatch self)\<rparr>)"
    by (rule g)
  show "cpu_method (snd (get_cpu_temperature world self)) = Some name"
    unfolding g using h by simp
  show "cpu_method_label (snd (get_cpu_temperature world self)) = cpu_method_label self"
    unfolding g by (simp add: cpu_method_label_def)
next
  assume h: "ssd_method self = Some name' \<and> map_of (ssd_dispatch self) name' = Some func'
      \<and> func' (world (length (calls self))) = Inr None
      \<and> (\<forall>j<length (ssd_dispatch self).
            snd (ssd_dispatch self ! j) (world (Suc (length (calls self)) + j)) = Inr None)"
  then have g: "get_ssd_temperature world self
          = (Inr None,
             self\<lparr>calls := calls self @ (SSD, name')
                           # map (\<lambda>p. (SSD, fst p)) (ssd_dispatch self)\<rparr>)"
    using get_ssd_temperature_exhausted [of self name' func' world] by blast
  show "get_ssd_temperature world self
          = (Inr None,
             self\<lparr>calls := calls self @ (SSD, name')
                           # map (\<lambda>p. (SSD, fst p)) (ssd_dispatch self)\<rparr>)"
    by (rule g)
  show "ssd_method (snd (get_ssd_temperature world self)) = Some name'"
    unfolding g using h by simp
  show "ssd_method_label (snd (get_ssd_temperature world self)) = ssd_method_label self"
    unfolding g by (simp add: ssd_method_label_def)
qed

text \<open>
  On a machine where no backend answers, with psutil and the storage namespace selected.
\<close>

theorem exhausted_read_keeps_method_witness:
  "cpu_method steady_monitor = Some ''psutil''
   \<and> cpu_temp_lhm steady_monitor bare_machine = Inr None
   \<and> cpu_temp_ohm steady_monitor bare_machine = Inr None
   \<and> cpu_temp_wmi_acpi steady_monitor bare_machine = Inr None
   \<and> cpu_temp_ps_acpi steady_monitor bare_machine = Inr None
   \<and> cpu_temp_psutil steady_monitor bare_machine = Inr None
   \<and> fst (get_cpu_temperature (\<lambda>n. bare_machine) steady_monitor) = Inr None
   \<and> cpu_method (snd (get_cpu_temperature (\<lambda>n. bare_machine) steady_monitor)) = Some ''psutil''
   \<and> cpu_method_label (snd (get_cpu_temperature (\<lambda>n. bare_machine) steady_monitor)) = ''psutil''
   \<and> ssd_method steady_monitor = Some ''wmi_storage''
   \<and> ssd_temp_lhm steady_monitor bare_machine = Inr None
   \<and> ssd_temp_ohm steady_monitor bare_machine = Inr None
   \<and> ssd_temp_ps_reliability steady_monitor bare_machine = Inr None
   \<and> ssd_temp_wmi_storage steady_monitor bare_machine = Inr None
   \<and> fst (get_ssd_temperature (\<lambda>n. bare_machine) steady_monitor) = Inr None
   \<and> ssd_method (snd (get_ssd_temperature (\<lambda>n. bare_machine) steady_monitor))
       = Some ''wmi_storage''
   \<and> ssd_method_label (snd (get_ssd_temperature (\<lambda>n. bare_machine) steady_monitor))
       = ''WMI Storage''"
proof -
  let ?M = steady_monitor and ?B = bare_machine
  have c1: "cpu_method ?M = Some ''psutil''" and s1: "ssd_method ?M = Some ''wmi_storage''"
    by (simp_all add: steady_monitor_def)
  have c2: "map_of (cpu_dispatch ?M) ''psutil'' = Some (cpu_temp_psutil ?M)"
    by (simp add: cpu_dispatch_def)
  have s2: "map_of (ssd_dispatch ?M) ''wmi_storage'' = Some (ssd_temp_wmi_storage ?M)"
    by (simp add: ssd_dispatch_def)
  have c3: "cpu_temp_lhm ?M ?B = Inr None" "cpu_temp_ohm ?M ?B = Inr None"
      "cpu_temp_wmi_acpi ?M ?B = Inr None" "cpu_temp_ps_acpi ?M ?B = Inr None"
      "cpu_temp_psutil ?M ?B = Inr None"
    by code_simp+
  have s3: "ssd_temp_lhm ?M ?B = Inr None" "ssd_temp_ohm ?M ?B = Inr None"
      "ssd_temp_ps_reliability ?M ?B = Inr None" "ssd_temp_wmi_storage ?M ?B = Inr None"
    by code_simp+
  have c4: "\<forall>j<length (cpu_dispatch ?M). snd (cpu_dispatch ?M ! j) ?B = Inr None"
    using c3 by (simp add: cpu_dispatch_def All_less_Suc)
  have s4: "\<forall>j<length (ssd_dispatch ?M). snd (ssd_dispatch ?M ! j) ?B = Inr None"
    using s3 by (simp add: ssd_dispatch_def All_less_Suc)
  have c5: "cpu_method_label ?M = ''psutil''" and s5: "ssd_method_label ?M = ''WMI Storage''"
    by code_simp+
  note inst = exhausted_read_keeps_method [where self = ?M and world = "\<lambda>n. ?B"
        and name = "''psutil''" and func = "cpu_temp_psutil ?M"
        and name' = "''wmi_storage''" and func' = "ssd_temp_wmi_storage ?M"]
  let ?G = "get_cpu_temperature (\<lambda>n. ?B) ?M" and ?H = "get_ssd_temperature (\<lambda>n. ?B) ?M"
  have g: "?G = (Inr None,
             ?M\<lparr>calls := calls ?M @ (CPU, ''psutil'')
                           # map (\<lambda>p. (CPU, fst p)) (cpu_dispatch ?M)\<rparr>)
        \<and> cpu_method (snd ?G) = Some ''psutil''
        \<and> cpu_method_label (snd ?G) = cpu_method_label ?M"
    using inst c1 c2 c3(5) c4 by blast
  have h: "?H = (Inr None,
             ?M\<lparr>calls := calls ?M @ (SSD, ''wmi_storage'')
                           # map (\<lambda>p. (SSD, fst p)) (ssd_dispatch ?M)\<rparr>)
        \<and> ssd_method (snd ?H) = Some ''wmi_storage''
        \<and> ssd_method_label (snd ?H) = ssd_method_label ?M"
    using inst s1 s2 s3(4) s4 by blast
  have g1: "fst ?G = Inr None" using g by simp
  have h1: "fst ?H = Inr None" using h by simp
  have g2: "cpu_method (snd ?G) = Some ''psutil''" using g by blast
  have h2: "ssd_method (snd ?H) = Some ''wmi_storage''" using h by blast
  have g3: "cpu_method_label (snd ?G) = ''psutil''" using g c5 by metis
  have h3: "ssd_method_label (snd ?H) = ''WMI Storage''" using h s5 by metis
  show ?thesis using c1 s1 c3 s3 g1 g2 g3 h1 h2 h3 by blast
qed

text \<open>
  C1 as stated, that the selected method becomes "none" and the label reports
  unavailable, fails: the sensors of \<open>fading_world\<close> answer during construction, which
  selects psutil, and are gone at the first read. The read calls psutil, then the five
  probes of the chain, returns None, and the method is still psutil.
\<close>

theorem exhausted_read_clears_method_counterexample:
  "HardwareMonitor_init fading_world = Inr steady_monitor
   \<and> get_cpu_temperature fading_world steady_monitor
       = (Inr None,
          steady_monitor\<lparr>calls := calls steady_monitor
            @ [(CPU, ''psutil''), (CPU, ''lhm''), (CPU, ''ohm_wmi''), (CPU, ''wmi_acpi''),
               (CPU, ''ps_acpi''), (CPU, ''psutil'')]\<rparr>)
   \<and> cpu_method (snd (get_cpu_temperature fading_world steady_monitor)) = Some ''psutil''
   \<and> cpu_method (snd (get_cpu_temperature fading_world steady_monitor)) \<noteq> None
   \<and> method_or_none (cpu_method (snd (get_cpu_temperature fading_world steady_monitor)))
       = ''psutil''
   \<and> cpu_method_label (snd (get_cpu_temperature fading_world steady_monitor)) = ''psutil''
   \<and> cpu_method_label (snd (get_cpu_temperature fading_world steady_monitor))
       \<noteq> ''Tidak tersedia''"
  by code_simp

section \<open>The invariant of the method slots\<close>

lemma cpu_dispatch_names: "fst ` set (cpu_dispatch self) = set cpu_names"
  by (simp add: cpu_dispatch_def cpu_names_def)

lemma ssd_dispatch_names: "fst ` set (ssd_dispatch self) = set ssd_names"
  by (simp add: ssd_dispatch_def ssd_names_def)

lemma slots_kept_refl: "slots_kept self self"
  by (simp add: slots_kept_def)

lemma slots_kept_trans: "slots_kept a b \<Longrightarrow> slots_kept b c \<Longrightarrow> slots_kept a c"
  by (auto simp: slots_kept_def)

lemma slots_kept_known: "slots_kept self self' \<Longrightarrow> known_methods self \<Longrightarrow> known_methods self'"
  by (auto simp: slots_kept_def known_methods_def split: option.splits)

lemma slots_kept_held:
  "slots_kept self self' \<Longrightarrow>
     (cpu_method self \<noteq> None \<longrightarrow> cpu_method self' \<noteq> None)
     \<and> (ssd_method self \<noteq> None \<longrightarrow> ssd_method self' \<noteq> None)"
  by (auto simp: slots_kept_def)

lemma first_working_cpu_kept:
  "slots_kept self (snd (first_working CPU (cpu_dispatch s) world self))"
  using first_working_methods [of CPU "cpu_dispatch s" world self]
  by (auto simp: slots_kept_def cpu_dispatch_names)

lemma first_working_ssd_kept:
  "slots_kept self (snd (first_working SSD (ssd_dispatch s) world self))"
  using first_working_methods [of SSD "ssd_dispatch s" world self]
  by (auto simp: slots_kept_def ssd_dispatch_names)

lemma get_cpu_temperature_kept: "slots_kept self (snd (get_cpu_temperature world self))"
  using get_cpu_temperature_fields [of world self]
  by (auto simp: slots_kept_def cpu_dispatch_names)

lemma get_ssd_temperature_kept: "slots_kept self (snd (get_ssd_temperature world self))"
  using get_ssd_temperature_fields [of world self]
  by (auto simp: slots_kept_def ssd_dispatch_names)

lemma read_sensors_kept: "slots_kept self (snd (read_sensors world self))"
  using read_sensors_state [of world self] slots_kept_refl [of self]
    get_cpu_temperature_kept [of self world]
    slots_kept_trans [OF get_cpu_temperature_kept [of self world]
      get_ssd_temperature_kept [of "snd (get_cpu_temperature world self)" world]]
  by auto

lemma detect_best_methods_kept: "slots_kept self (snd (detect_best_methods world self))"
proof -
  let ?s1 = "snd (first_working CPU (cpu_methods self) world self)"
  have a: "slots_kept self ?s1"
    using first_working_cpu_kept [of self self world] by (simp add: cpu_dispatch_methods)
  have b: "slots_kept ?s1 (snd (first_working SSD (ssd_methods self) world ?s1))"
    using first_working_ssd_kept [of ?s1 self world] by (simp add: ssd_dispatch_methods)
  show ?thesis
    using detect_best_methods_state [of world self] a slots_kept_trans [OF a b] by auto
qed

lemma init_wmi_providers_methods:
  "cpu_method (init_wmi_providers b self) = cpu_method self"
  "ssd_method (init_wmi_providers b self) = ssd_method self"
  "calls (init_wmi_providers b self) = calls self"
  by (simp_all add: init_wmi_providers_def)

lemma HardwareMonitor_init_known:
  assumes "HardwareMonitor_init world = Inr self"
  shows "known_methods self"
proof -
  let ?m = "init_wmi_providers (world 0) new_monitor"
  have k: "known_methods ?m"
    by (simp add: known_methods_def init_wmi_providers_methods new_monitor_def)
  have "self = snd (detect_best_methods world ?m)"
    using assms by (simp add: HardwareMonitor_init_def split: prod.splits sum.splits)
  then show ?thesis
    using slots_kept_known [OF detect_best_methods_kept k] by simp
qed

text \<open>
  C9. Construction yields an object whose two slots are None or hold a name of the chain
  of their own metric (for the CPU: lhm, ohm_wmi, wmi_acpi, ps_acpi, psutil; for the
  storage: lhm, ohm_wmi, ps_reliability, wmi_storage). The discovery pass, both accessors
  and \<open>read_sensors\<close> keep this, and none of them turns a slot that holds a name back
  into None. This holds of the object they leave behind also when an exception
  leaves the operation.
\<close>

theorem selected_method_invariant:
  "(HardwareMonitor_init world = Inr self0 \<longrightarrow> known_methods self0)
   \<and> (self' \<in> {snd (detect_best_methods world self), snd (get_cpu_temperature world self),
               snd (get_ssd_temperature world self), snd (read_sensors world self)}
      \<longrightarrow> (known_methods self \<longrightarrow> known_methods self')
          \<and> (cpu_method self \<noteq> None \<longrightarrow> cpu_method self' \<noteq> None)
          \<and> (ssd_method self \<noteq> None \<longrightarrow> ssd_method self' \<noteq> None))"
proof (intro conjI impI)
  assume "HardwareMonitor_init world = Inr self0"
  then show "known_methods self0" by (rule HardwareMonitor_init_known)
next
  assume "self' \<in> {snd (detect_best_methods world self), snd (get_cpu_temperature world self),
               snd (get_ssd_temperature world self), snd (read_sensors world self)}"
  then have k: "slots_kept self self'"
    using detect_best_methods_kept get_cpu_temperature_kept get_ssd_temperature_kept
      read_sensors_kept by auto
  { assume "known_methods self"
    with k show "known_methods self'" by (rule slots_kept_known) }
  { assume "cpu_method self \<noteq> None"
    with k show "cpu_method self' \<noteq> None" using slots_kept_held by blast }
  { assume "ssd_method self \<noteq> None"
    with k show "ssd_method self' \<noteq> None" using slots_kept_held by blast }
qed

text \<open>
  Construction in \<open>fading_world\<close> selects psutil and the storage namespace; the read that
  follows finds no backend, and both slots still hold their names.
\<close>

theorem selected_method_invariant_witness:
  "HardwareMonitor_init fading_world = Inr steady_monitor
   \<and> known_methods steady_monitor
   \<and> cpu_method steady_monitor = Some ''psutil''
   \<and> ssd_method steady_monitor = Some ''wmi_storage''
   \<and> known_methods (snd (read_sensors fading_world steady_monitor))
   \<and> cpu_method (snd (read_sensors fading_world steady_monitor)) \<noteq> None
   \<and> ssd_method (snd (read_sensors fading_world steady_monitor)) \<noteq> None"
proof -
  have i: "HardwareMonitor_init fading_world = Inr steady_monitor" by code_simp
  have c: "cpu_method steady_monitor = Some ''psutil''"
    and s: "ssd_method steady_monitor = Some ''wmi_storage''"
    by (simp_all add: steady_monitor_def)
  note inst = selected_method_invariant [where world = fading_world and ?self0.0 = steady_monitor
      and self = steady_monitor and self' = "snd (read_sensors fading_world steady_monitor)"]
  have k: "known_methods steady_monitor" using inst i by blast
  have "known_methods (snd (read_sensors fading_world steady_monitor))
     \<and> cpu_method (snd (read_sensors fading_world steady_monitor)) \<noteq> None
     \<and> ssd_method (snd (read_sensors fading_world steady_monitor)) \<noteq> None"
    using inst k c s by simp
  then show ?thesis using i k c s by blast
qed

section \<open>An exhausted chain\<close>

lemma labels_unselected:
  "cpu_method self = None \<Longrightarrow> cpu_method_label self = ''Tidak tersedia''"
  "ssd_method self = None \<Longrightarrow> ssd_method_label self = ''Tidak tersedia''"
  "method_or_none None = ''none''"
  by (simp_all add: cpu_method_label_def ssd_method_label_def labels_get_def
      str_or_empty_def method_or_none_def)

lemma HardwareMonitor_init_cpu_exhausted:
  assumes "\<forall>j<length (cpu_methods (init_wmi_providers (world 0) new_monitor)).
             snd (cpu_methods (init_wmi_providers (world 0) new_monitor) ! j) (world j) = Inr None"
  shows "\<exists>self. HardwareMonitor_init world = Inr self \<and> cpu_method self = None"
proof -
  let ?m = "init_wmi_providers (world 0) new_monitor"
  have c0: "calls ?m = []" and m0: "cpu_method ?m = None"
    by (simp_all add: init_wmi_providers_methods new_monitor_def)
  have ex: "\<And>j. j < length (cpu_methods ?m) \<Longrightarrow>
      snd (cpu_methods ?m ! j) (world (length (calls ?m) + j)) = Inr None"
    using assms by (simp add: c0)
  let ?s1 = "?m\<lparr>calls := calls ?m @ map (\<lambda>p. (CPU, fst p)) (cpu_methods ?m)\<rparr>"
  have f1: "first_working CPU (cpu_methods ?m) world ?m = (Inr None, ?s1)"
    by (rule first_working_exhausted [OF ex])
  have d1: "ssd_methods ?s1 = ssd_methods ?m"
    by (rule ssd_methods_handles) simp_all
  let ?f2 = "first_working SSD (ssd_methods ?m) world ?s1"
  obtain r where r: "fst ?f2 = Inr r"
    using first_working_total [of "ssd_methods ?m" SSD world ?s1] ssd_methods_total by blast
  have m2: "cpu_method (snd ?f2) = None"
    using first_working_methods [of SSD "ssd_methods ?m" world ?s1] m0 by simp
  obtain x s2 where f2: "?f2 = (x, s2)" by (cases ?f2)
  have x: "x = Inr r" using r by (simp add: f2)
  have "detect_best_methods world ?m = (Inr (), snd ?f2)"
    by (simp add: detect_best_methods_def f1 d1 f2 x)
  then have "HardwareMonitor_init world = Inr (snd ?f2)"
    by (simp add: HardwareMonitor_init_def)
  with m2 show ?thesis by blast
qed

lemma HardwareMonitor_init_ssd_exhausted:
  assumes "i \<le> length (cpu_methods (init_wmi_providers (world 0) new_monitor))"
    and "\<forall>j<i. snd (cpu_methods (init_wmi_providers (world 0) new_monitor) ! j) (world j)
              = Inr None"
    and "i < length (cpu_methods (init_wmi_providers (world 0) new_monitor)) \<longrightarrow>
          (\<exists>v. snd (cpu_methods (init_wmi_providers (world 0) new_monitor) ! i) (world i)
                = Inr (Some v))"
    and "\<forall>j<length (ssd_methods (init_wmi_providers (world 0) new_monitor)).
           snd (ssd_methods (init_wmi_providers (world 0) new_monitor) ! j)
             (world (length (take (Suc i)
                        (cpu_methods (init_wmi_providers (world 0) new_monitor))) + j))
           = Inr None"
  shows "\<exists>self. HardwareMonitor_init world = Inr self \<and> ssd_method self = None"
proof -
  let ?m = "init_wmi_providers (world 0) new_monitor"
  have c0: "calls ?m = []" and m0: "ssd_method ?m = None"
    by (simp_all add: init_wmi_providers_methods new_monitor_def)
  have h2: "\<forall>j<i. snd (cpu_methods ?m ! j) (world (length (calls ?m) + j)) = Inr None"
    using assms(2) by (simp add: c0)
  have h3: "i < length (cpu_methods ?m) \<longrightarrow>
      (\<exists>v. snd (cpu_methods ?m ! i) (world (length (calls ?m) + i)) = Inr (Some v))"
    using assms(3) by (simp add: c0)
  have h4: "length (ssd_methods ?m) \<le> length (ssd_methods ?m)" by simp
  have h5: "\<forall>j<length (ssd_methods ?m). snd (ssd_methods ?m ! j)
      (world (length (calls ?m) + length (take (Suc i) (cpu_methods ?m)) + j)) = Inr None"
    using assms(4) by (simp add: c0)
  have h6: "length (ssd_methods ?m) < length (ssd_methods ?m) \<longrightarrow>
      (\<exists>v. snd (ssd_methods ?m ! length (ssd_methods ?m))
         (world (length (calls ?m) + length (take (Suc i) (cpu_methods ?m))
                 + length (ssd_methods ?m))) = Inr (Some v))"
    by simp
  have "\<exists>self. detect_best_methods world ?m = (Inr (), self) \<and> ssd_method self = None"
    using detect_best_methods_walk [OF assms(1) h2 h3 h4 h5 h6] m0 by simp
  then show ?thesis by (auto simp: HardwareMonitor_init_def)
qed

lemma get_cpu_temperature_unselected_exhausted:
  assumes "cpu_method self = None"
    and "\<forall>j<length (cpu_dispatch self).
           snd (cpu_dispatch self ! j) (world (length (calls self) + j)) = Inr None"
  shows "get_cpu_temperature world self
           = (Inr None, self\<lparr>calls := calls self @ map (\<lambda>p. (CPU, fst p)) (cpu_dispatch self)\<rparr>)"
proof -
  have ex: "\<And>j. j < length (cpu_dispatch self) \<Longrightarrow>
      snd (cpu_dispatch self ! j) (world (length (calls self) + j)) = Inr None"
    using assms(2) by blast
  show ?thesis
    unfolding get_cpu_temperature_unselected [OF assms(1)]
    by (rule first_working_exhausted [OF ex])
qed

lemma get_ssd_temperature_unselected_exhausted:
  assumes "ssd_method self = None"
    and "\<forall>j<length (ssd_dispatch self).
           snd (ssd_dispatch self ! j) (world (length (calls self) + j)) = Inr None"
  shows "get_ssd_temperature world self
           = (Inr None, self\<lparr>calls := calls self @ map (\<lambda>p. (SSD, fst p)) (ssd_dispatch self)\<rparr>)"
proof -
  have ex: "\<And>j. j < length (ssd_dispatch self) \<Longrightarrow>
      snd (ssd_dispatch self ! j) (world (length (calls self) + j)) = Inr None"
    using assms(2) by blast
  show ?thesis
    unfolding get_ssd_temperature_unselected [OF assms(1)]
    by (rule first_working_exhausted [OF ex])
qed

lemma read_sensors_temps:
  assumes "read_sensors world self = (Inr r, self')"
  shows "\<exists>c s. fst (get_cpu_temperature world self) = Inr c
           \<and> fst (get_ssd_temperature world (snd (get_cpu_temperature world self))) = Inr s
           \<and> cpu_temp r = map_option round1 c \<and> ssd_temp r = map_option round1 s"
  using assms
  by (auto simp: read_sensors_def split: sum.splits prod.splits option.splits)

text \<open>
  C8. When every probe of the chain of a metric returns None during construction, the
  constructor returns an object (no exception leaves it) whose slot for that metric is
  still None; \<open>get_system_info\<close> reports "none" and the label reads "Tidak tersedia"
  (not available). For the storage chain, whose probes run after the CPU walk, \<open>i\<close> is
  where the CPU walk stopped. With an empty slot and the chain still exhausted at a
  read, the accessor returns None, the slot stays None, and a reading that
  \<open>read_sensors\<close> returns carries None for the temperature.
\<close>

theorem exhausted_chain_at_construction:
  "((\<forall>j<length (cpu_methods (init_wmi_providers (world 0) new_monitor)).
        snd (cpu_methods (init_wmi_providers (world 0) new_monitor) ! j) (world j) = Inr None)
     \<longrightarrow> (\<exists>self. HardwareMonitor_init world = Inr self \<and> cpu_method self = None
            \<and> method_or_none (cpu_method self) = ''none''
            \<and> cpu_method_label self = ''Tidak tersedia''))
   \<and> (i \<le> length (cpu_methods (init_wmi_providers (world 0) new_monitor))
      \<and> (\<forall>j<i. snd (cpu_methods (init_wmi_providers (world 0) new_monitor) ! j) (world j)
               = Inr None)
      \<and> (i < length (cpu_methods (init_wmi_providers (world 0) new_monitor)) \<longrightarrow>
          (\<exists>v. snd (cpu_methods (init_wmi_providers (world 0) new_monitor) ! i) (world i)
                = Inr (Some v)))
      \<and> (\<forall>j<length (ssd_methods (init_wmi_providers (world 0) new_monitor)).
           snd (ssd_methods (init_wmi_providers (world 0) new_monitor) ! j)
             (world (length (take (Suc i)
                        (cpu_methods (init_wmi_providers (world 0) new_monitor))) + j))
           = Inr None)
     \<longrightarrow> (\<exists>self. HardwareMonitor_init world = Inr self \<and> ssd_method self = None
            \<and> method_or_none (ssd_method self) = ''none''
            \<and> ssd_method_label self = ''Tidak tersedia''))
   \<and> (cpu_method self = None
      \<and> (\<forall>j<length (cpu_dispatch self).
            snd (cpu_dispatch self ! j) (world (length (calls self) + j)) = Inr None)
     \<longrightarrow> fst (get_cpu_temperature world self) = Inr None
         \<and> cpu_method (snd (get_cpu_temperature world self)) = None
         \<and> (\<forall>r self'. read_sensors world self = (Inr r, self') \<longrightarrow> cpu_temp r = None))
   \<and> (ssd_method self = None
      \<and> (\<forall>j<length (ssd_dispatch self).
            snd (ssd_dispatch self ! j) (world (length (calls self) + j)) = Inr None)
     \<longrightarrow> fst (get_ssd_temperature world self) = Inr None
         \<and> ssd_method (snd (get_ssd_temperature world self)) = None)
   \<and> (ssd_method self = None
      \<and> (\<forall>j<length (ssd_dispatch self).
            snd (ssd_dispatch self ! j)
              (world (length (calls (snd (get_cpu_temperature world self))) + j)) = Inr None)
     \<longrightarrow> (\<forall>r self'. read_sensors world self = (Inr r, self') \<longrightarrow> ssd_temp r = None))"
proof (intro conjI)
  show "(\<forall>j<length (cpu_methods (init_wmi_providers (world 0) new_monitor)).
        snd (cpu_methods (init_wmi_providers (world 0) new_monitor) ! j) (world j) = Inr None)
     \<longrightarrow> (\<exists>self. HardwareMonitor_init world = Inr self \<and> cpu_method self = None
            \<and> method_or_none (cpu_method self) = ''none''
            \<and> cpu_method_label self = ''Tidak tersedia'')"
    using HardwareMonitor_init_cpu_exhausted [of world] labels_unselected by auto
next
  show "i \<le> length (cpu_methods (init_wmi_providers (world 0) new_monitor))
      \<and> (\<forall>j<i. snd (cpu_methods (init_wmi_providers (world 0) new_monitor) ! j) (world j)
               = Inr None)
      \<and> (i < length (cpu_methods (init_wmi_providers (world 0) new_monitor)) \<longrightarrow>
          (\<exists>v. snd (cpu_methods (init_wmi_providers (world 0) new_monitor) ! i) (world i)
                = Inr (Some v)))
      \<and> (\<forall>j<length (ssd_methods (init_wmi_providers (world 0) new_monitor)).
           snd (ssd_methods (init_wmi_providers (world 0) new_monitor) ! j)
             (world (length (take (Suc i)
                        (cpu_methods (init_wmi_providers (world 0) new_monitor))) + j))
           = Inr None)
     \<longrightarrow> (\<exists>self. HardwareMonitor_init world = Inr self \<and> ssd_method self = None
            \<and> method_or_none (ssd_method self) = ''none''
            \<and> ssd_method_label self = ''Tidak tersedia'')"
    using HardwareMonitor_init_ssd_exhausted [of i world] labels_unselected by auto
next
  show "cpu_method self = None
      \<and> (\<forall>j<length (cpu_dispatch self).
            snd (cpu_dispatch self ! j) (world (length (calls self) + j)) = Inr None)
     \<longrightarrow> fst (get_cpu_temperature world self) = Inr None
         \<and> cpu_method (snd (get_cpu_temperature world self)) = None
         \<and> (\<forall>r self'. read_sensors world self = (Inr r, self') \<longrightarrow> cpu_temp r = None)"
  proof (intro impI)
    assume h: "cpu_method self = None
      \<and> (\<forall>j<length (cpu_dispatch self).
            snd (cpu_dispatch self ! j) (world (length (calls self) + j)) = Inr None)"
    have g: "get_cpu_temperature world self
           = (Inr None, self\<lparr>calls := calls self @ map (\<lambda>p. (CPU, fst p)) (cpu_dispatch self)\<rparr>)"
      using h get_cpu_temperature_unselected_exhausted by blast
    have "\<forall>r self'. read_sensors world self = (Inr r, self') \<longrightarrow> cpu_temp r = None"
      using read_sensors_temps [of world self] by (auto simp: g)
    then show "fst (get_cpu_temperature world self) = Inr None
         \<and> cpu_method (snd (get_cpu_temperature world self)) = None
         \<and> (\<forall>r self'. read_sensors world self = (Inr r, self') \<longrightarrow> cpu_temp r = None)"
      using h by (simp add: g)
  qed
next
  show "ssd_method self = None
      \<and> (\<forall>j<length (ssd_dispatch self).
            snd (ssd_dispatch self ! j) (world (length (calls self) + j)) = Inr None)
     \<longrightarrow> fst (get_ssd_temperature world self) = Inr None
         \<and> ssd_method (snd (get_ssd_temperature world self)) = None"
  proof (intro impI)
    assume h: "ssd_method self = None
      \<and> (\<forall>j<length (ssd_dispatch self).
            snd (ssd_dispatch self ! j) (world (length (calls self) + j)) = Inr None)"
    have g: "get_ssd_temperature world self
           = (Inr None, self\<lparr>calls := calls self @ map (\<lambda>p. (SSD, fst p)) (ssd_dispatch self)\<rparr>)"
      using h get_ssd_temperature_unselected_exhausted by blast
    show "fst (get_ssd_temperature world self) = Inr None
         \<and> ssd_method (snd (get_ssd_temperature world self)) = None"
      using h by (simp add: g)
  qed
next
  show "ssd_method self = None
      \<and> (\<forall>j<length (ssd_dispatch self).
            snd (ssd_dispatch self ! j)
              (world (length (calls (snd (get_cpu_temperature world self))) + j)) = Inr None)
     \<longrightarrow> (\<forall>r self'. read_sensors world self = (Inr r, self') \<longrightarrow> ssd_temp r = None)"
  proof (intro impI allI)
    fix r self'
    let ?s1 = "snd (get_cpu_temperature world self)"
    assume h: "ssd_method self = None
      \<and> (\<forall>j<length (ssd_dispatch self).
            snd (ssd_dispatch self ! j)
              (world (length (calls (snd (get_cpu_temperature world self))) + j)) = Inr None)"
    assume rs: "read_sensors world self = (Inr r, self')"
    have d: "ssd_dispatch ?s1 = ssd_dispatch self"
      unfolding ssd_dispatch_methods
      by (rule ssd_methods_handles) (simp_all add: get_cpu_temperature_fields)
    have m: "ssd_method ?s1 = None"
      using h by (simp add: get_cpu_temperature_fields)
    have e: "\<forall>j<length (ssd_dispatch ?s1).
        snd (ssd_dispatch ?s1 ! j) (world (length (calls ?s1) + j)) = Inr None"
      unfolding d using h by blast
    have g: "fst (get_ssd_temperature world ?s1) = Inr None"
      using get_ssd_temperature_unselected_exhausted [OF m e] by simp
    show "ssd_temp r = None"
      using read_sensors_temps [OF rs] g by auto
  qed
qed

text \<open>On the machine where no backend answers.\<close>

theorem exhausted_chain_at_construction_witness:
  "cpu_temp_lhm new_monitor bare_machine = Inr None
   \<and> cpu_temp_ohm new_monitor bare_machine = Inr None
   \<and> cpu_temp_wmi_acpi new_monitor bare_machine = Inr None
   \<and> cpu_temp_ps_acpi new_monitor bare_machine = Inr None
   \<and> cpu_temp_psutil new_monitor bare_machine = Inr None
   \<and> ssd_temp_lhm new_monitor bare_machine = Inr None
   \<and> ssd_temp_ohm new_monitor bare_machine = Inr None
   \<and> ssd_temp_ps_reliability new_monitor bare_machine = Inr None
   \<and> ssd_temp_wmi_storage new_monitor bare_machine = Inr None
   \<and> HardwareMonitor_init (\<lambda>n. bare_machine) = Inr bare_monitor
   \<and> cpu_method bare_monitor = None \<and> ssd_method bare_monitor = None
   \<and> method_or_none (cpu_method bare_monitor) = ''none''
   \<and> method_or_none (ssd_method bare_monitor) = ''none''
   \<and> cpu_method_label bare_monitor = ''Tidak tersedia''
   \<and> ssd_method_label bare_monitor = ''Tidak tersedia''
   \<and> fst (get_cpu_temperature (\<lambda>n. bare_machine) bare_monitor) = Inr None
   \<and> fst (get_ssd_temperature (\<lambda>n. bare_machine) bare_monitor) = Inr None
   \<and> fst (read_sensors (\<lambda>n. bare_machine) bare_monitor)
       = Inr \<lparr>timestamp = ''2026-01-01 00:00:00'', cpu_percent = 123 / 10, cpu_temp = None,
              ram_percent = 457 / 10, disk_percent = 80, ssd_temp = None\<rparr>"
proof -
  let ?W = "\<lambda>n::nat. bare_machine" and ?M = bare_monitor
  have p: "cpu_temp_lhm new_monitor bare_machine = Inr None"
      "cpu_temp_ohm new_monitor bare_machine = Inr None"
      "cpu_temp_wmi_acpi new_monitor bare_machine = Inr None"
      "cpu_temp_ps_acpi new_monitor bare_machine = Inr None"
      "cpu_temp_psutil new_monitor bare_machine = Inr None"
      "ssd_temp_lhm new_monitor bare_machine = Inr None"
      "ssd_temp_ohm new_monitor bare_machine = Inr None"
      "ssd_temp_ps_reliability new_monitor bare_machine = Inr None"
      "ssd_temp_wmi_storage new_monitor bare_machine = Inr None"
    by code_simp+
  have q: "cpu_temp_lhm ?M bare_machine = Inr None"
      "cpu_temp_ohm ?M bare_machine = Inr None"
      "cpu_temp_wmi_acpi ?M bare_machine = Inr None"
      "cpu_temp_ps_acpi ?M bare_machine = Inr None"
      "cpu_temp_psutil ?M bare_machine = Inr None"
      "ssd_temp_lhm ?M bare_machine = Inr None"
      "ssd_temp_ohm ?M bare_machine = Inr None"
      "ssd_temp_ps_reliability ?M bare_machine = Inr None"
      "ssd_temp_wmi_storage ?M bare_machine = Inr None"
    by code_simp+
  have m0: "init_wmi_providers bare_machine new_monitor = new_monitor" by code_simp
  have i: "HardwareMonitor_init ?W = Inr ?M" by code_simp
  have rs: "read_sensors ?W ?M
       = (Inr \<lparr>timestamp = ''2026-01-01 00:00:00'', cpu_percent = 123 / 10, cpu_temp = None,
              ram_percent = 457 / 10, disk_percent = 80, ssd_temp = None\<rparr>,
          snd (read_sensors ?W ?M))"
    by code_simp
  have h1: "\<forall>j<length (cpu_methods (init_wmi_providers (?W 0) new_monitor)).
        snd (cpu_methods (init_wmi_providers (?W 0) new_monitor) ! j) (?W j) = Inr None"
    using p by (simp add: m0 cpu_methods_def All_less_Suc)
  have h2: "(5::nat) \<le> length (cpu_methods (init_wmi_providers (?W 0) new_monitor))
      \<and> (\<forall>j<5. snd (cpu_methods (init_wmi_providers (?W 0) new_monitor) ! j) (?W j)
               = Inr None)
      \<and> (5 < length (cpu_methods (init_wmi_providers (?W 0) new_monitor)) \<longrightarrow>
          (\<exists>v. snd (cpu_methods (init_wmi_providers (?W 0) new_monitor) ! 5) (?W 5)
                = Inr (Some v)))
      \<and> (\<forall>j<length (ssd_methods (init_wmi_providers (?W 0) new_monitor)).
           snd (ssd_methods (init_wmi_providers (?W 0) new_monitor) ! j)
             (?W (length (take (Suc 5)
                        (cpu_methods (init_wmi_providers (?W 0) new_monitor))) + j))
           = Inr None)"
    using p by (simp add: m0 cpu_methods_def ssd_methods_def eval_nat_numeral All_less_Suc)
  have mc: "cpu_method ?M = None" and ms: "ssd_method ?M = None"
    by (simp_all add: bare_monitor_def new_monitor_def)
  have h3: "\<forall>j<length (cpu_dispatch ?M).
            snd (cpu_dispatch ?M ! j) (?W (length (calls ?M) + j)) = Inr None"
    using q by (simp add: cpu_dispatch_def All_less_Suc)
  have h4: "\<forall>j<length (ssd_dispatch ?M).
            snd (ssd_dispatch ?M ! j) (?W (length (calls ?M) + j)) = Inr None"
    using q by (simp add: ssd_dispatch_def All_less_Suc)
  have h5: "\<forall>j<length (ssd_dispatch ?M).
            snd (ssd_dispatch ?M ! j)
              (?W (length (calls (snd (get_cpu_temperature ?W ?M))) + j)) = Inr None"
    using q by (simp add: ssd_dispatch_def All_less_Suc)
  note inst = exhausted_chain_at_construction [where world = ?W and self = ?M and i = 5]
  have a: "cpu_method ?M = None \<and> method_or_none (cpu_method ?M) = ''none''
      \<and> cpu_method_label ?M = ''Tidak tersedia''"
    using inst h1 i by auto
  have b: "ssd_method ?M = None \<and> method_or_none (ssd_method ?M) = ''none''
      \<and> ssd_method_label ?M = ''Tidak tersedia''"
    using inst h2 i by auto
  have c: "fst (get_cpu_temperature ?W ?M) = Inr None"
    using inst mc h3 by blast
  have d: "fst (get_ssd_temperature ?W ?M) = Inr None"
    using inst ms h4 by blast
  have e: "fst (read_sensors ?W ?M)
       = Inr \<lparr>timestamp = ''2026-01-01 00:00:00'', cpu_percent = 123 / 10, cpu_temp = None,
              ram_percent = 457 / 10, disk_percent = 80, ssd_temp = None\<rparr>"
    using rs by (metis fst_conv)
  show ?thesis using p i a b c d e by blast
qed

section \<open>The reading\<close>

text \<open>No exception leaves the storage accessor.\<close>

lemma sticky_call_ssd_total:
  "\<exists>v. fst (sticky_call SSD selected (ssd_dispatch self) world s) = Inr v"
proof (cases selected)
  case None
  then show ?thesis by (simp add: sticky_call_def)
next
  case (Some name)
  show ?thesis
  proof (cases "map_of (ssd_dispatch self) name")
    case None
    then show ?thesis using Some by (simp add: sticky_call_def)
  next
    case (Some func)
    then have "(name, func) \<in> set (ssd_methods self)"
      by (simp add: map_of_SomeD ssd_dispatch_methods)
    then have "\<exists>v. func (world (length (calls s))) = Inr v"
      using ssd_methods_total [of "(name, func)" self] by simp
    then show ?thesis
      using Some \<open>selected = Some name\<close> by (simp add: sticky_call_def call_probe_def)
  qed
qed

lemma get_ssd_temperature_total: "\<exists>v. fst (get_ssd_temperature world self) = Inr v"
proof -
  let ?st = "sticky_call SSD (ssd_method self) (ssd_dispatch self) world self"
  obtain x s where st: "?st = (x, s)" by (cases ?st)
  obtain v where v: "x = Inr v"
    using sticky_call_ssd_total [of "ssd_method self" self world self] by (auto simp: st)
  have d: "ssd_dispatch s = ssd_dispatch self"
    using ssd_dispatch_after_sticky [of SSD "ssd_method self" "ssd_dispatch self" world self]
    by (simp add: st)
  obtain w where w: "fst (first_working SSD (ssd_dispatch self) world s) = Inr w"
    using first_working_total [of "ssd_dispatch self" SSD world s] ssd_methods_total
    by (auto simp: ssd_dispatch_methods)
  show ?thesis
    using w by (cases v) (simp_all add: get_ssd_temperature_def st v d split: prod.splits)
qed

text \<open>
  C7. \<open>cpu_percent\<close>, \<open>ram_percent\<close> and \<open>disk_percent\<close> of a reading are numbers (their
  type has no None). Every reading that \<open>read_sensors\<close> returns carries in them what the
  three psutil utilisation queries returned, rounded to one decimal. And a reading is
  returned whenever these queries return and no exception leaves the CPU accessor,
  whatever the temperature chains give, so also when both are exhausted.
\<close>

theorem read_sensors_utilisation:
  "(read_sensors world self = (Inr r, self')
     \<longrightarrow> (\<exists>c m d. psutil_cpu_percent (world (length (calls self))) = Inr c
            \<and> psutil_virtual_memory_percent (world (length (calls self))) = Inr m
            \<and> psutil_disk_usage_percent (world (length (calls self))) = Inr d
            \<and> cpu_percent r = round1 c \<and> ram_percent r = round1 m
            \<and> disk_percent r = round1 d))
   \<and> (psutil_cpu_percent (world (length (calls self))) = Inr c
      \<and> psutil_virtual_memory_percent (world (length (calls self))) = Inr m
      \<and> psutil_disk_usage_percent (world (length (calls self))) = Inr d
      \<and> fst (get_cpu_temperature world self) = Inr t
     \<longrightarrow> (\<exists>r. fst (read_sensors world self) = Inr r
            \<and> cpu_percent r = round1 c \<and> ram_percent r = round1 m
            \<and> disk_percent r = round1 d \<and> cpu_temp r = map_option round1 t))"
proof (intro conjI impI)
  assume "read_sensors world self = (Inr r, self')"
  then show "\<exists>c m d. psutil_cpu_percent (world (length (calls self))) = Inr c
            \<and> psutil_virtual_memory_percent (world (length (calls self))) = Inr m
            \<and> psutil_disk_usage_percent (world (length (calls self))) = Inr d
            \<and> cpu_percent r = round1 c \<and> ram_percent r = round1 m
            \<and> disk_percent r = round1 d"
    by (auto simp: read_sensors_def split: sum.splits prod.splits)
next
  assume h: "psutil_cpu_percent (world (length (calls self))) = Inr c
      \<and> psutil_virtual_memory_percent (world (length (calls self))) = Inr m
      \<and> psutil_disk_usage_percent (world (length (calls self))) = Inr d
      \<and> fst (get_cpu_temperature world self) = Inr t"
  obtain x s1 where g: "get_cpu_temperature world self = (x, s1)"
    by (cases "get_cpu_temperature world self")
  have x: "x = Inr t" using h by (simp add: g)
  obtain y s2 where k: "get_ssd_temperature world s1 = (y, s2)"
    by (cases "get_ssd_temperature world s1")
  obtain u where y: "y = Inr u"
    using get_ssd_temperature_total [of world s1] by (auto simp: k)
  show "\<exists>r. fst (read_sensors world self) = Inr r
            \<and> cpu_percent r = round1 c \<and> ram_percent r = round1 m
            \<and> disk_percent r = round1 d \<and> cpu_temp r = map_option round1 t"
    using h by (cases t) (simp_all add: read_sensors_def g x k y)
qed

text \<open>
  On the machine where no backend answers: both temperatures are None and the
  utilisation fields are there.
\<close>

theorem read_sensors_utilisation_witness:
  "read_sensors (\<lambda>n. bare_machine) bare_monitor
     = (Inr \<lparr>timestamp = ''2026-01-01 00:00:00'', cpu_percent = 123 / 10, cpu_temp = None,
            ram_percent = 457 / 10, disk_percent = 80, ssd_temp = None\<rparr>,
        bare_monitor\<lparr>calls := calls bare_monitor
          @ [(CPU, ''lhm''), (CPU, ''ohm_wmi''), (CPU, ''wmi_acpi''), (CPU, ''ps_acpi''),
             (CPU, ''psutil''), (SSD, ''lhm''), (SSD, ''ohm_wmi''), (SSD, ''ps_reliability''),
             (SSD, ''wmi_storage'')]\<rparr>)
   \<and> psutil_cpu_percent bare_machine = Inr (1234 / 100)
   \<and> psutil_virtual_memory_percent bare_machine = Inr (4567 / 100)
   \<and> psutil_disk_usage_percent bare_machine = Inr 80
   \<and> round1 (1234 / 100) = 123 / 10 \<and> round1 (4567 / 100) = 457 / 10 \<and> round1 80 = 80
   \<and> fst (get_cpu_temperature (\<lambda>n. bare_machine) bare_monitor) = Inr None"
proof -
  let ?W = "\<lambda>n::nat. bare_machine" and ?M = bare_monitor
  let ?R = "\<lparr>timestamp = ''2026-01-01 00:00:00'', cpu_percent = 123 / 10, cpu_temp = None,
            ram_percent = 457 / 10, disk_percent = 80, ssd_temp = None\<rparr>"
  have rs: "read_sensors ?W ?M
     = (Inr ?R,
        ?M\<lparr>calls := calls ?M
          @ [(CPU, ''lhm''), (CPU, ''ohm_wmi''), (CPU, ''wmi_acpi''), (CPU, ''ps_acpi''),
             (CPU, ''psutil''), (SSD, ''lhm''), (SSD, ''ohm_wmi''), (SSD, ''ps_reliability''),
             (SSD, ''wmi_storage'')]\<rparr>)"
    by code_simp
  have u: "psutil_cpu_percent bare_machine = Inr (1234 / 100)"
      "psutil_virtual_memory_percent bare_machine = Inr (4567 / 100)"
      "psutil_disk_usage_percent bare_machine = Inr 80"
    by (simp_all add: bare_machine_def)
  have g: "fst (get_cpu_temperature ?W ?M) = Inr None" by code_simp
  note inst = read_sensors_utilisation [where world = ?W and self = ?M and r = ?R
      and self' = "snd (read_sensors ?W ?M)" and c = "1234 / 100" and m = "4567 / 100"
      and d = 80 and t = None]
  have a: "\<exists>c m d. psutil_cpu_percent bare_machine = Inr c
            \<and> psutil_virtual_memory_percent bare_machine = Inr m
            \<and> psutil_disk_usage_percent bare_machine = Inr d
            \<and> cpu_percent ?R = round1 c \<and> ram_percent ?R = round1 m
            \<and> disk_percent ?R = round1 d"
    using inst rs by simp
  have b: "\<exists>r. fst (read_sensors ?W ?M) = Inr r
            \<and> cpu_percent r = round1 (1234 / 100) \<and> ram_percent r = round1 (4567 / 100)
            \<and> disk_percent r = round1 80 \<and> cpu_temp r = None"
    using inst u g by simp
  have r: "round1 (1234 / 100) = 123 / 10" "round1 (4567 / 100) = 457 / 10" "round1 80 = 80"
    using b rs by auto
  show ?thesis using rs u r g by blast
qed

text \<open>
  C10. Every numeric field of the reading that \<open>read_sensors\<close> returns is rounded to one
  decimal place: \<open>cpu_percent\<close>, \<open>ram_percent\<close>, \<open>disk_percent\<close>, and \<open>cpu_temp\<close> and
  \<open>ssd_temp\<close> when present, each equal themselves rounded to one decimal.
\<close>

theorem read_sensors_rounded:
  assumes "read_sensors world self = (Inr r, self')"
  shows "round1 (cpu_percent r) = cpu_percent r
       \<and> round1 (ram_percent r) = ram_percent r
       \<and> round1 (disk_percent r) = disk_percent r
       \<and> (\<forall>t. cpu_temp r = Some t \<longrightarrow> round1 t = t)
       \<and> (\<forall>t. ssd_temp r = Some t \<longrightarrow> round1 t = t)"
  using assms
  by (auto simp: read_sensors_def round1_idem split: sum.splits prod.splits option.splits)

text \<open>
  On a machine where only psutil answers, with 42.37 degrees: the reading carries 42.4,
  and the utilisation 12.34, 45.67 and 80 as 12.3, 45.7 and 80.
\<close>

theorem read_sensors_rounded_witness:
  "read_sensors (\<lambda>n. psutil_machine (4237 / 100)) new_monitor
     = (Inr \<lparr>timestamp = ''2026-01-01 00:00:00'', cpu_percent = 123 / 10,
             cpu_temp = Some (424 / 10), ram_percent = 457 / 10, disk_percent = 80,
             ssd_temp = None\<rparr>,
        new_monitor\<lparr>cpu_method := Some ''psutil'',
          calls := [(CPU, ''lhm''), (CPU, ''ohm_wmi''), (CPU, ''wmi_acpi''),
                    (CPU, ''ps_acpi''), (CPU, ''psutil''), (SSD, ''lhm''),
                    (SSD, ''ohm_wmi''), (SSD, ''ps_reliability''), (SSD, ''wmi_storage'')]\<rparr>)
   \<and> round1 (123 / 10) = 123 / 10 \<and> round1 (457 / 10) = 457 / 10 \<and> round1 80 = 80
   \<and> round1 (424 / 10) = 424 / 10"
proof -
  have h: "read_sensors (\<lambda>n. psutil_machine (4237 / 100)) new_monitor
     = (Inr \<lparr>timestamp = ''2026-01-01 00:00:00'', cpu_percent = 123 / 10,
             cpu_temp = Some (424 / 10), ram_percent = 457 / 10, disk_percent = 80,
             ssd_temp = None\<rparr>,
        new_monitor\<lparr>cpu_method := Some ''psutil'',
          calls := [(CPU, ''lhm''), (CPU, ''ohm_wmi''), (CPU, ''wmi_acpi''),
                    (CPU, ''ps_acpi''), (CPU, ''psutil''), (SSD, ''lhm''),
                    (SSD, ''ohm_wmi''), (SSD, ''ps_reliability''), (SSD, ''wmi_storage'')]\<rparr>)"
    by code_simp
  show ?thesis using h read_sensors_rounded [OF h] by simp
qed

section \<open>Where the probes leave their contract\<close>

text \<open>
  C2. Every probe is to return a value only when it lies strictly between 0 and 150.
  Eight of the nine probes test \<open>0 < val < 150\<close> before they return; \<open>_cpu_temp_psutil\<close>
  returns \<open>temps[name][0].current\<close> as it is. On a machine where only psutil answers, the
  probe returns 9999, 150, 0 and -5 unchanged, and the reading carries 9999 as the CPU
  temperature. The storage probe over WMI, given the same values, returns None, and
  36.6 is accepted. The probes that do test the range round after the test: 149.96
  passes the test and is returned as 150, and 0.04 as 0.
\<close>

theorem psutil_probe_returns_unvalidated:
  "cpu_temp_psutil new_monitor (psutil_machine 9999) = Inr (Some 9999)
   \<and> cpu_temp_psutil new_monitor (psutil_machine 150) = Inr (Some 150)
   \<and> cpu_temp_psutil new_monitor (psutil_machine 0) = Inr (Some 0)
   \<and> cpu_temp_psutil new_monitor (psutil_machine (- 5)) = Inr (Some (- 5))
   \<and> fst (read_sensors (\<lambda>n. psutil_machine 9999) new_monitor)
       = Inr \<lparr>timestamp = ''2026-01-01 00:00:00'', cpu_percent = 123 / 10,
              cpu_temp = Some 9999, ram_percent = 457 / 10, disk_percent = 80,
              ssd_temp = None\<rparr>
   \<and> ssd_temp_wmi_storage office_monitor (storage_machine 9999) = Inr None
   \<and> ssd_temp_wmi_storage office_monitor (storage_machine 150) = Inr None
   \<and> ssd_temp_wmi_storage office_monitor (storage_machine 0) = Inr None
   \<and> ssd_temp_wmi_storage office_monitor (storage_machine (- 5)) = Inr None
   \<and> ssd_temp_wmi_storage office_monitor (storage_machine (366 / 10)) = Inr (Some (366 / 10))
   \<and> ssd_temp_wmi_storage office_monitor (storage_machine (14996 / 100)) = Inr (Some 150)
   \<and> ssd_temp_wmi_storage office_monitor (storage_machine (4 / 100)) = Inr (Some 0)"
  by code_simp

text \<open>
  C6. No probe is to let an exception out. \<open>_cpu_temp_ps_acpi\<close> catches only
  \<open>ValueError\<close> and \<open>TypeError\<close> around \<open>int(output.strip())\<close> and \<open>raw / 10.0\<close>, where
  every other probe catches \<open>Exception\<close>. When PowerShell prints a 1 followed by 400
  zeros, \<open>int\<close> accepts the text, the division raises \<open>OverflowError\<close>, and the
  exception leaves the probe, the accessor, \<open>read_sensors\<close> and the constructor. The
  same number in a thermal zone of the WMI probe, which catches \<open>Exception\<close>, gives None,
  and so does a text that is not a number in the PowerShell probe.
\<close>

theorem ps_acpi_probe_raises:
  "cpu_temp_ps_acpi new_monitor (powershell_machine huge_text) = Inl OverflowError
   \<and> fst (get_cpu_temperature (\<lambda>n. powershell_machine huge_text) new_monitor)
       = Inl OverflowError
   \<and> fst (read_sensors (\<lambda>n. powershell_machine huge_text) new_monitor) = Inl OverflowError
   \<and> HardwareMonitor_init (\<lambda>n. powershell_machine huge_text) = Inl OverflowError
   \<and> init_wmi_providers (acpi_machine (10 ^ 400)) new_monitor
       = new_monitor\<lparr>wmi_root := Some root_WMI\<rparr>
   \<and> cpu_temp_wmi_acpi (new_monitor\<lparr>wmi_root := Some root_WMI\<rparr>) (acpi_machine (10 ^ 400))
       = Inr None
   \<and> cpu_temp_ps_acpi new_monitor (powershell_machine ''not a number'') = Inr None"
proof -
  let ?B = "powershell_machine huge_text" and ?W = "\<lambda>n::nat. powershell_machine huge_text"
  have p: "cpu_temp_ps_acpi new_monitor ?B = Inl OverflowError"
    by code_simp
  have q: "cpu_temp_lhm new_monitor ?B = Inr None" "cpu_temp_ohm new_monitor ?B = Inr None"
      "cpu_temp_wmi_acpi new_monitor ?B = Inr None"
    by (simp_all add: cpu_temp_lhm_def cpu_temp_ohm_def cpu_temp_wmi_acpi_def
        powershell_machine_def bare_machine_def new_monitor_def)
  have u: "psutil_cpu_percent ?B = Inr (1234 / 100)"
      "psutil_virtual_memory_percent ?B = Inr (4567 / 100)"
      "psutil_disk_usage_percent ?B = Inr 80"
    by (simp_all add: powershell_machine_def bare_machine_def)
  have m: "init_wmi_providers ?B new_monitor = new_monitor"
    by (simp add: init_wmi_providers_def powershell_machine_def bare_machine_def)
  have n: "cpu_method new_monitor = None" by (simp add: new_monitor_def)
  have f: "fst (first_working CPU (cpu_methods new_monitor) ?W new_monitor) = Inl OverflowError"
    by (simp add: cpu_methods_def first_working_step p q)
  have g: "fst (get_cpu_temperature ?W new_monitor) = Inl OverflowError"
    using f by (simp add: get_cpu_temperature_unselected [OF n] cpu_dispatch_methods)
  obtain x s1 where gc: "get_cpu_temperature ?W new_monitor = (x, s1)"
    by (cases "get_cpu_temperature ?W new_monitor")
  have x: "x = Inl OverflowError" using g by (simp add: gc)
  have r: "fst (read_sensors ?W new_monitor) = Inl OverflowError"
    by (simp add: read_sensors_def u gc x)
  obtain y s0 where fc: "first_working CPU (cpu_methods new_monitor) ?W new_monitor = (y, s0)"
    by (cases "first_working CPU (cpu_methods new_monitor) ?W new_monitor")
  have y: "y = Inl OverflowError" using f by (simp add: fc)
  have i: "HardwareMonitor_init ?W = Inl OverflowError"
    by (simp add: HardwareMonitor_init_def detect_best_methods_def m fc y)
  have s: "init_wmi_providers (acpi_machine (10 ^ 400)) new_monitor
       = new_monitor\<lparr>wmi_root := Some root_WMI\<rparr>"
    by (simp add: init_wmi_providers_def acpi_machine_def bare_machine_def)
  have t: "cpu_temp_wmi_acpi (new_monitor\<lparr>wmi_root := Some root_WMI\<rparr>) (acpi_machine (10 ^ 400))
       = Inr None"
    by code_simp
  have v: "cpu_temp_ps_acpi new_monitor (powershell_machine ''not a number'') = Inr None"
    by code_simp
  show ?thesis using p g r i s t v by blast
qed

end
